theory Spec2Isabelle
  imports Main
begin

section \<open>Provisioning a virtual machine with ordered and independent remote commands\<close>

text \<open>
  The repository holds three versions of one Go program, \<^verbatim>\<open>main.go\<close>:
  \<^item> the first document of \<^verbatim>\<open>src/main.go\<close> (lines 1 to 173), with the
    helpers \<^verbatim>\<open>runIndependentCommands\<close> and \<^verbatim>\<open>runOrderedCommands\<close>;
  \<^item> the second document of \<^verbatim>\<open>src/main.go\<close> (lines 174 to 269), a single
    chain written inline in \<^verbatim>\<open>main\<close>; its definitions carry the suffix \<open>_doc2\<close>;
  \<^item> \<^verbatim>\<open>src/unnamed/part_000\<close>, with both loops written inline in
    \<^verbatim>\<open>main\<close>; its definitions carry the suffix \<open>_part0\<close>.

  The program declares remote commands through the Pulumi SDK. The SDK is not part of the
  repository: the model records every call of \<^verbatim>\<open>remote.NewCommand\<close>, of the logger and of
  \<^verbatim>\<open>fmt.Printf\<close> in a trace, and takes the answer of the SDK to each call from a
  parameter \<open>sdk\<close>, so that every theorem holds for every behaviour of the SDK.
\<close>

subsection \<open>Errors\<close>

text \<open>
  A Go \<^verbatim>\<open>error\<close> is a value. \<open>External\<close> is an error made outside the repository (by the
  SDK or by \<^verbatim>\<open>os.ReadFile\<close>), \<open>Errorf\<close> is \<^verbatim>\<open>fmt.Errorf\<close> without \<^verbatim>\<open>%w\<close>, and \<open>ErrorfW\<close>
  is \<^verbatim>\<open>fmt.Errorf\<close> with one \<^verbatim>\<open>%w\<close>: it keeps the formatted message and the wrapped error.
\<close>

datatype error = External string | Errorf string | ErrorfW string error

fun Error :: "error \<Rightarrow> string" where
  "Error (External m) = m"
| "Error (Errorf m) = m"
| "Error (ErrorfW m e) = m"

subsection \<open>The command table\<close>

definition commonPackages :: string where
  "commonPackages = ''bpftrace clang cmake curl gcc gdb git less llvm man-db mold pkgconf sysstat zsh''"

definition cargoPackages :: string where
  "cargoPackages = ''bat csvlens hexyl hyperfine xsv''"

definition installCmd :: "string \<Rightarrow> error + string" where
  "installCmd distribution =
     (if distribution = ''fedora'' then Inr ''sudo dnf install -y''
      else if distribution = ''ubuntu'' \<or> distribution = ''debian'' then Inr ''sudo apt-get install -y''
      else Inl (Errorf (''unsupported distribution: '' @ distribution)))"

definition updateCmd :: "string \<Rightarrow> error + string" where
  "updateCmd distribution =
     (if distribution = ''fedora'' then Inr ''sudo dnf update -y''
      else if distribution = ''ubuntu'' \<or> distribution = ''debian''
        then Inr ''sudo apt-get update && sudo apt-get dist-upgrade -y''
      else Inl (Errorf (''unsupported distribution: '' @ distribution)))"

text \<open>
  \<^verbatim>\<open>extraPackagesForDistro\<close> returns a slice and no error. Go's \<^verbatim>\<open>nil\<close> slice and its empty
  slice \<^verbatim>\<open>[]string{}\<close> both have length 0 and join to the empty string: both are \<open>[]\<close>.
\<close>

definition extraPackagesForDistro :: "string \<Rightarrow> string list" where
  "extraPackagesForDistro distribution =
     (if distribution = ''fedora''
        then [''fedora-packager'', ''fedora-review'', ''gcc-c++'', ''ninja'', ''perf'']
      else if distribution = ''ubuntu'' \<or> distribution = ''debian''
        then [''g++'', ''linux-tools-virtual'', ''ninja-build'']
      else [])"

text \<open>The same three functions in \<^verbatim>\<open>src/unnamed/part_000\<close>.\<close>

definition commonPackages_part0 :: string where
  "commonPackages_part0 = ''curl less git man-db zsh''"

definition installCmd_part0 :: "string \<Rightarrow> error + string" where
  "installCmd_part0 distribution =
     (if distribution = ''fedora'' then Inr ''dnf install -y''
      else if distribution = ''ubuntu'' \<or> distribution = ''debian'' then Inr ''apt-get install -y''
      else Inl (Errorf (''unsupported distribution: '' @ distribution)))"

definition updateCmd_part0 :: "string \<Rightarrow> error + string" where
  \<open>updateCmd_part0 distribution =
     (if distribution = ''fedora'' then Inr ''sudo dnf update -y''
      else if distribution = ''ubuntu'' \<or> distribution = ''debian''
        then Inr ''sudo bash -c "apt-get update && apt-get dist-upgrade -y"''
      else Inl (Errorf (''unsupported distribution: '' @ distribution)))\<close>

definition extraPackagesForDistro_part0 :: "string \<Rightarrow> string list" where
  "extraPackagesForDistro_part0 distribution =
     (if distribution = ''fedora'' then [''fedora-packager'', ''fedora-review''] else [])"

text \<open>The two builders of the second document of \<^verbatim>\<open>src/main.go\<close> (it has no extra packages).\<close>

definition installCmd_doc2 :: "string \<Rightarrow> error + string" where
  "installCmd_doc2 distribution =
     (if distribution = ''fedora'' then Inr ''dnf install -y''
      else if distribution = ''ubuntu'' \<or> distribution = ''debian'' then Inr ''apt-get install -y''
      else Inl (Errorf (''unsupported distribution: '' @ distribution)))"

definition updateCmd_doc2 :: "string \<Rightarrow> error + string" where
  \<open>updateCmd_doc2 distribution =
     (if distribution = ''fedora'' then Inr ''sudo dnf update -y''
      else if distribution = ''ubuntu'' \<or> distribution = ''debian''
        then Inr ''sudo bash -c "apt-get update && apt-get dist-upgrade -y"''
      else Inl (Errorf (''unsupported distribution: '' @ distribution)))\<close>

subsection \<open>The SDK and the trace of a run\<close>

text \<open>
  \<^verbatim>\<open>remote.ConnectionArgs\<close> and \<^verbatim>\<open>remote.CommandArgs\<close>, with the fields the program sets.
  The port is the constant \<^verbatim>\<open>pulumi.Float64(32222)\<close>, an integer value.
\<close>

record connectionArgs =
  Host :: string
  Port :: int
  User :: string
  PrivateKey :: string

record commandArgs =
  Connection :: connectionArgs
  Create :: string
  Triggers :: "string list"

text \<open>
  The only resource option the program passes is \<^verbatim>\<open>pulumi.DependsOn\<close>. \<open>'r\<close> is the type of
  the resources that the SDK returns.
\<close>

datatype 'r resourceOption = DependsOn "'r list"

text \<open>One call \<^verbatim>\<open>remote.NewCommand(ctx, name, args, opts...)\<close>: one submitted command.\<close>

record 'r call =
  resourceName :: string
  args :: commandArgs
  opts :: "'r resourceOption list"

text \<open>
  What a run does to the outside, in order: \<^verbatim>\<open>ctx.Log.Info\<close>, \<^verbatim>\<open>ctx.Log.Error\<close>,
  \<^verbatim>\<open>fmt.Printf\<close>, and \<^verbatim>\<open>remote.NewCommand\<close> with what it returned (\<open>Inl\<close> its error,
  \<open>Inr\<close> its resource). The context \<^verbatim>\<open>ctx\<close> is the trace so far.
\<close>

datatype 'r event =
    LogInfo string
  | LogError string
  | Printf string
  | Call "'r call" "error + 'r"

type_synonym 'r ctx = "'r event list"

text \<open>The SDK answers a call from everything that happened before and from the call.\<close>

type_synonym 'r sdk = "'r ctx \<Rightarrow> 'r call \<Rightarrow> error + 'r"

definition NewCommand ::
  "'r sdk \<Rightarrow> 'r ctx \<Rightarrow> string \<Rightarrow> commandArgs \<Rightarrow> 'r resourceOption list
     \<Rightarrow> (error + 'r) \<times> 'r ctx" where
  "NewCommand sdk ctx n a os =
     (let c = \<lparr>resourceName = n, args = a, opts = os\<rparr>; res = sdk ctx c
      in (res, ctx @ [Call c res]))"

text \<open>The submitted commands of a trace, in order, each with the answer of the SDK.\<close>

fun submissions :: "'r ctx \<Rightarrow> ('r call \<times> (error + 'r)) list" where
  "submissions [] = []"
| "submissions (Call c res # es) = (c, res) # submissions es"
| "submissions (e # es) = submissions es"

subsection \<open>The two executors of \<^verbatim>\<open>src/main.go\<close>\<close>

text \<open>The anonymous struct \<^verbatim>\<open>struct { name string; cmd string }\<close>.\<close>

record command =
  name :: string
  cmd :: string

text \<open>
  \<^verbatim>\<open>runIndependentCommands\<close>, lines 50 to 67. The result is the returned \<^verbatim>\<open>error\<close> (\<open>None\<close>
  for \<^verbatim>\<open>nil\<close>) and the context after the call.
\<close>

fun runIndependentCommands ::
  "'r sdk \<Rightarrow> 'r ctx \<Rightarrow> command list \<Rightarrow> connectionArgs \<Rightarrow> error option \<times> 'r ctx" where
  "runIndependentCommands sdk ctx [] connection = (None, ctx)"
| "runIndependentCommands sdk ctx (c # commands) connection =
     (let ctx1 = ctx @ [LogInfo (name c @ '': '' @ [CHR 0x27] @ cmd c @ [CHR 0x27])];
          (res, ctx2) = NewCommand sdk ctx1 (name c)
            \<lparr>Connection = connection, Create = cmd c, Triggers = [cmd c]\<rparr> []
      in case res of
           Inl err \<Rightarrow>
             (Some (ErrorfW (''failed to run command '' @ [CHR 0x27] @ cmd c @ [CHR 0x27] @ '': ''
                              @ Error err) err), ctx2)
         | Inr r \<Rightarrow> runIndependentCommands sdk ctx2 commands connection)"

text \<open>
  \<^verbatim>\<open>runOrderedCommands\<close>, lines 69 to 91. The loop threads the local variable
  \<^verbatim>\<open>lastResource\<close>; \<open>orderedLoop\<close> is the loop from a given value of it and returns its
  last value beside the error and the context. \<^verbatim>\<open>runOrderedCommands\<close> starts the loop at
  \<^verbatim>\<open>update_cmd\<close> and returns the error.
\<close>

fun orderedLoop ::
  "'r sdk \<Rightarrow> 'r ctx \<Rightarrow> 'r \<Rightarrow> command list \<Rightarrow> connectionArgs
     \<Rightarrow> error option \<times> 'r \<times> 'r ctx" where
  "orderedLoop sdk ctx lastResource [] connection = (None, lastResource, ctx)"
| "orderedLoop sdk ctx lastResource (c # commands) connection =
     (let ctx1 = ctx @ [LogInfo (name c @ '': '' @ [CHR 0x27] @ cmd c @ [CHR 0x27])];
          (res, ctx2) = NewCommand sdk ctx1 (name c)
            \<lparr>Connection = connection, Create = cmd c, Triggers = [cmd c]\<rparr>
            [DependsOn [lastResource]]
      in case res of
           Inl err \<Rightarrow>
             (Some (ErrorfW (''failed to run command '' @ [CHR 0x27] @ cmd c @ [CHR 0x27] @ '': ''
                              @ Error err) err), lastResource, ctx2)
         | Inr r \<Rightarrow> orderedLoop sdk ctx2 r commands connection)"

definition runOrderedCommands ::
  "'r sdk \<Rightarrow> 'r ctx \<Rightarrow> 'r \<Rightarrow> command list \<Rightarrow> connectionArgs \<Rightarrow> error option \<times> 'r ctx" where
  "runOrderedCommands sdk ctx update_cmd commands connection =
     (case orderedLoop sdk ctx update_cmd commands connection of
        (err, lastResource, ctx') \<Rightarrow> (err, ctx'))"

subsection \<open>\<^verbatim>\<open>main\<close> of \<^verbatim>\<open>src/main.go\<close>, lines 93 to 173\<close>

text \<open>\<^verbatim>\<open>strings.Join\<close>.\<close>

fun Join :: "string list \<Rightarrow> string \<Rightarrow> string" where
  "Join [] sep = []"
| "Join [x] sep = x"
| "Join (x # y # xs) sep = x @ sep @ Join (y # xs) sep"

text \<open>
  The closure given to \<^verbatim>\<open>pulumi.Run\<close> either panics (\<^verbatim>\<open>cfg.Require\<close> on a missing key) or
  returns an \<^verbatim>\<open>error\<close>, \<open>None\<close> for \<^verbatim>\<open>nil\<close>.
\<close>

datatype outcome = Panic string | Return "error option"

text \<open>The two literal lists of \<^verbatim>\<open>main\<close>, lines 122 to 144.\<close>

definition setup_commands :: "string \<Rightarrow> string list \<Rightarrow> command list" where
  \<open>setup_commands installCmd' extraPackages =
    [\<lparr>name = ''install-packages'',
      cmd = installCmd' @ '' '' @ commonPackages @ '' '' @ Join extraPackages '' ''\<rparr>,
     \<lparr>name = ''install-cargo'',
      cmd = ''rm -rf ~/.cargo ~/.rustup && curl -LsSf https://sh.rustup.rs | sh -s -- -y --no-modify-path''\<rparr>,
     \<lparr>name = ''install-cargo-packages'',
      cmd = ''~/.cargo/bin/cargo install '' @ cargoPackages\<rparr>,
     \<lparr>name = ''setup-config'',
      cmd = ''rm -rf ~/github/config && git clone https://github.com/ismail/config.git ~/github/config && ~/github/config/setup.sh''\<rparr>,
     \<lparr>name = ''setup-hacks'',
      cmd = ''rm -rf ~/github/hacks && git clone https://github.com/ismail/hacks.git ~/github/hacks && ~/github/hacks/setup.sh''\<rparr>,
     \<lparr>name = ''set-zlogin'',
      cmd = ''echo 'path+=(~/.local/bin ~/.cargo/bin $path)'' @ [CHR 0x0A, CHR 0x0A]
            @ ''eval "$(starship init zsh)"' > ~/.zlogin''\<rparr>,
     \<lparr>name = ''use-zsh'', cmd = ''sudo chsh -s /bin/zsh ismail''\<rparr>]\<close>

definition extra_commands :: "command list" where
  \<open>extra_commands =
    [\<lparr>name = ''install-starship'',
      cmd = ''curl -sS https://starship.rs/install.sh | sudo sh -s -- -y''\<rparr>,
     \<lparr>name = ''install-uv'',
      cmd = ''curl -LsSf https://astral.sh/uv/install.sh | UV_NO_MODIFY_PATH=1 sh''\<rparr>,
     \<lparr>name = ''starship-disable-container'',
      cmd = ''mkdir -p ~/.config && echo "[container]'' @ [CHR 0x0A]
            @ ''disabled = true" > ~/.config/starship.toml''\<rparr>]\<close>

text \<open>
  The inputs of a run: the SDK, the configuration \<open>cfg\<close> (a missing key makes
  \<^verbatim>\<open>cfg.Require\<close> panic), what \<^verbatim>\<open>os.ReadFile\<close> returned for the key file, and \<open>now\<close>, the
  text of \<^verbatim>\<open>time.Now().Format(time.RFC3339)\<close>. \<^verbatim>\<open>pulumi.Run\<close> gives the closure a new
  context: the trace starts empty.
\<close>

definition main ::
  "'r sdk \<Rightarrow> (string \<rightharpoonup> string) \<Rightarrow> error + string \<Rightarrow> string \<Rightarrow> outcome \<times> 'r ctx" where
  "main sdk cfg key now =
    (case cfg ''distribution'' of
       None \<Rightarrow> (Panic ''distribution'', [])
     | Some distribution \<Rightarrow>
    (case cfg ''sshUsername'' of
       None \<Rightarrow> (Panic ''sshUsername'', [])
     | Some sshUsername \<Rightarrow>
    (case key of
       Inl err \<Rightarrow> (Return (Some (ErrorfW (''failed to read private key: '' @ Error err) err)), [])
     | Inr key' \<Rightarrow>
    (let connection = \<lparr>Host = ''localhost'', Port = 32222, User = sshUsername, PrivateKey = key'\<rparr> in
    (case installCmd distribution of
       Inl err \<Rightarrow> (Return (Some (ErrorfW (''failed to get install command: '' @ Error err) err)), [])
     | Inr installCmd' \<Rightarrow>
    (case updateCmd distribution of
       Inl err \<Rightarrow> (Return (Some (ErrorfW (''failed to get update command: '' @ Error err) err)), [])
     | Inr updateCmd' \<Rightarrow>
    (let extraPackages = extraPackagesForDistro distribution;
         (res, ctx1) = NewCommand sdk [] ''update-system''
            \<lparr>Connection = connection, Create = updateCmd', Triggers = [now]\<rparr> []
     in
    (case res of
       Inl err \<Rightarrow> (Return (Some (ErrorfW (''failed to update the system: '' @ Error err) err)), ctx1)
     | Inr base_cmd \<Rightarrow>
    (case runOrderedCommands sdk ctx1 base_cmd (setup_commands installCmd' extraPackages) connection of
       (Some err, ctx2) \<Rightarrow>
         (Return (Some err), ctx2 @ [LogError (''Failed to run base commands: '' @ Error err)])
     | (None, ctx2) \<Rightarrow>
    (case runIndependentCommands sdk ctx2 extra_commands connection of
       (Some err, ctx3) \<Rightarrow>
         (Return (Some err), ctx3 @ [LogError (''Failed to run setup commands: '' @ Error err)])
     | (None, ctx3) \<Rightarrow>
         (Return None, ctx3 @ [LogInfo (distribution @ '' setup complete.'')])))))))))))"

subsection \<open>\<^verbatim>\<open>main\<close> of \<^verbatim>\<open>src/unnamed/part_000\<close>, lines 46 to 141\<close>

definition base_commands_part0 :: "string \<Rightarrow> string \<Rightarrow> string list \<Rightarrow> command list" where
  "base_commands_part0 updateCmd' installCmd' extraPackages =
    [\<lparr>name = ''update-system'', cmd = updateCmd'\<rparr>,
     \<lparr>name = ''install-packages'',
      cmd = ''sudo '' @ installCmd' @ '' '' @ commonPackages_part0 @ '' '' @ Join extraPackages '' ''\<rparr>,
     \<lparr>name = ''use-zsh'', cmd = ''sudo chsh -s /bin/zsh ismail''\<rparr>]"

definition commands_part0 :: "command list" where
  \<open>commands_part0 =
    [\<lparr>name = ''install-cargo'',
      cmd = ''curl --proto '=https' --tlsv1.2 -sSf https://sh.rustup.rs | sh -s -- -y --no-modify-path''\<rparr>,
     \<lparr>name = ''setup-config'',
      cmd = ''rm -rf ~/github/config && git clone https://github.com/ismail/config.git ~/github/config && ~/github/config/setup.sh''\<rparr>,
     \<lparr>name = ''setup-hacks'',
      cmd = ''rm -rf ~/github/hacks && git clone https://github.com/ismail/hacks.git ~/github/hacks && ~/github/hacks/setup.sh''\<rparr>,
     \<lparr>name = ''install-starship'',
      cmd = ''curl -sS https://starship.rs/install.sh | sudo sh -s -- -y''\<rparr>,
     \<lparr>name = ''starship-disable-container'',
      cmd = ''mkdir -p ~/.config && echo "[container]'' @ [CHR 0x0A]
            @ ''disabled = true" > ~/.config/starship.toml''\<rparr>,
     \<lparr>name = ''set-zlogin'',
      cmd = ''echo 'path+=(~/.cargo/bin $path)'' @ [CHR 0x0A, CHR 0x0A]
            @ ''eval "$(starship init zsh)"' > ~/.zlogin''\<rparr>]\<close>

text \<open>
  The loop of lines 100 to 121, written inline in \<^verbatim>\<open>main\<close>. \<^verbatim>\<open>lastResource\<close> starts as
  \<^verbatim>\<open>nil\<close> (\<open>None\<close>), and the first command gets no option. A \<^verbatim>\<open>return\<close> inside the loop
  leaves \<^verbatim>\<open>main\<close>: the first component is \<open>Some v\<close> when the loop returned \<open>v\<close> from
  \<^verbatim>\<open>main\<close>, and \<open>None\<close> when the loop ran to its end.
\<close>

fun baseLoop_part0 ::
  "'r sdk \<Rightarrow> 'r ctx \<Rightarrow> 'r option \<Rightarrow> command list \<Rightarrow> connectionArgs
     \<Rightarrow> error option option \<times> 'r option \<times> 'r ctx" where
  "baseLoop_part0 sdk ctx lastResource [] connection = (None, lastResource, ctx)"
| "baseLoop_part0 sdk ctx lastResource (c # commands) connection =
     (let ctx1 = ctx @ [LogInfo (''Running command: '' @ [CHR 0x27] @ cmd c @ [CHR 0x27])];
          os = (case lastResource of None \<Rightarrow> [] | Some l \<Rightarrow> [DependsOn [l]]);
          (res, ctx2) = NewCommand sdk ctx1 (name c)
            \<lparr>Connection = connection, Create = cmd c, Triggers = [cmd c]\<rparr> os
      in case res of
           Inl err \<Rightarrow>
             (Some None, lastResource,
              ctx2 @ [Printf (''failed to run command '' @ [CHR 0x27] @ cmd c @ [CHR 0x27] @ '': ''
                               @ Error err)])
         | Inr r \<Rightarrow> baseLoop_part0 sdk ctx2 (Some r) commands connection)"

text \<open>The loop of lines 124 to 135.\<close>

fun independentLoop_part0 ::
  "'r sdk \<Rightarrow> 'r ctx \<Rightarrow> command list \<Rightarrow> connectionArgs \<Rightarrow> error option option \<times> 'r ctx" where
  "independentLoop_part0 sdk ctx [] connection = (None, ctx)"
| "independentLoop_part0 sdk ctx (c # commands) connection =
     (let ctx1 = ctx @ [LogInfo (''Running command: '' @ [CHR 0x27] @ cmd c @ [CHR 0x27])];
          (res, ctx2) = NewCommand sdk ctx1 (name c)
            \<lparr>Connection = connection, Create = cmd c, Triggers = [cmd c]\<rparr> []
      in case res of
           Inl err \<Rightarrow>
             (Some (Some (ErrorfW (''failed to run command '' @ name c @ '': '' @ Error err) err)), ctx2)
         | Inr r \<Rightarrow> independentLoop_part0 sdk ctx2 commands connection)"

definition main_part0 ::
  "'r sdk \<Rightarrow> (string \<rightharpoonup> string) \<Rightarrow> error + string \<Rightarrow> outcome \<times> 'r ctx" where
  "main_part0 sdk cfg key =
    (case cfg ''distribution'' of
       None \<Rightarrow> (Panic ''distribution'', [])
     | Some distribution \<Rightarrow>
    (case cfg ''sshUsername'' of
       None \<Rightarrow> (Panic ''sshUsername'', [])
     | Some sshUsername \<Rightarrow>
    (case key of
       Inl err \<Rightarrow> (Return (Some (ErrorfW (''failed to read private key: '' @ Error err) err)), [])
     | Inr key' \<Rightarrow>
    (let connection = \<lparr>Host = ''localhost'', Port = 32222, User = sshUsername, PrivateKey = key'\<rparr> in
    (case installCmd_part0 distribution of
       Inl err \<Rightarrow> (Return (Some (ErrorfW (''failed to get install command: '' @ Error err) err)), [])
     | Inr installCmd' \<Rightarrow>
    (case updateCmd_part0 distribution of
       Inl err \<Rightarrow> (Return (Some (ErrorfW (''failed to get update command: '' @ Error err) err)), [])
     | Inr updateCmd' \<Rightarrow>
    (let extraPackages = extraPackagesForDistro_part0 distribution in
    (case baseLoop_part0 sdk [] None
            (base_commands_part0 updateCmd' installCmd' extraPackages) connection of
       (Some v, lastResource, ctx1) \<Rightarrow> (Return v, ctx1)
     | (None, lastResource, ctx1) \<Rightarrow>
    (case independentLoop_part0 sdk ctx1 commands_part0 connection of
       (Some v, ctx2) \<Rightarrow> (Return v, ctx2)
     | (None, ctx2) \<Rightarrow>
         (Return None, ctx2 @ [LogInfo (distribution @ '' setup complete.'')]))))))))))"

subsection \<open>\<^verbatim>\<open>main\<close> of the second document of \<^verbatim>\<open>src/main.go\<close>, lines 206 to 269\<close>

definition commands_doc2 :: "string \<Rightarrow> string \<Rightarrow> command list" where
  \<open>commands_doc2 updateCmd' installCmd' =
    [\<lparr>name = ''update-system'', cmd = updateCmd'\<rparr>,
     \<lparr>name = ''install-packages'', cmd = ''sudo '' @ installCmd' @ '' git zsh''\<rparr>,
     \<lparr>name = ''setup-home'', cmd = ''rm -rf $HOME/github && mkdir $HOME/github''\<rparr>,
     \<lparr>name = ''setup-config'',
      cmd = ''git clone https://github.com/ismail/config.git $HOME/github/config''\<rparr>,
     \<lparr>name = ''setup-hacks'',
      cmd = ''git clone https://github.com/ismail/hacks.git $HOME/github/hacks''\<rparr>,
     \<lparr>name = ''run-setup'',
      cmd = ''cd $HOME/github/config && ./setup.sh && cd $HOME/github/hacks && ./setup.sh''\<rparr>,
     \<lparr>name = ''use-zsh'', cmd = ''sudo chsh -s /bin/zsh ismail''\<rparr>,
     \<lparr>name = ''install-starship'',
      cmd = ''curl -sS https://starship.rs/install.sh | sudo sh -s -- -y''\<rparr>,
     \<lparr>name = ''starship-disable-container'',
      cmd = ''mkdir -p ~/.config && echo "[container]'' @ [CHR 0x0A]
            @ ''disabled = true" > ~/.config/starship.toml''\<rparr>,
     \<lparr>name = ''use-starship'', cmd = ''echo 'eval "$(starship init zsh)"' > ~/.zshrc-local''\<rparr>]\<close>

text \<open>The loop of lines 243 to 263: as in \<^verbatim>\<open>part_000\<close>, without \<^verbatim>\<open>Triggers\<close>.\<close>

fun chainLoop_doc2 ::
  "'r sdk \<Rightarrow> 'r ctx \<Rightarrow> 'r option \<Rightarrow> command list \<Rightarrow> connectionArgs
     \<Rightarrow> error option option \<times> 'r option \<times> 'r ctx" where
  "chainLoop_doc2 sdk ctx lastResource [] connection = (None, lastResource, ctx)"
| "chainLoop_doc2 sdk ctx lastResource (c # commands) connection =
     (let ctx1 = ctx @ [LogInfo (''Running command: '' @ [CHR 0x27] @ cmd c @ [CHR 0x27])];
          os = (case lastResource of None \<Rightarrow> [] | Some l \<Rightarrow> [DependsOn [l]]);
          (res, ctx2) = NewCommand sdk ctx1 (name c)
            \<lparr>Connection = connection, Create = cmd c, Triggers = []\<rparr> os
      in case res of
           Inl err \<Rightarrow>
             (Some None, lastResource,
              ctx2 @ [Printf (''failed to run command '' @ [CHR 0x27] @ cmd c @ [CHR 0x27] @ '': ''
                               @ Error err)])
         | Inr r \<Rightarrow> chainLoop_doc2 sdk ctx2 (Some r) commands connection)"

text \<open>
  Lines 212 and 213 assign the errors of \<^verbatim>\<open>installCmd\<close> and \<^verbatim>\<open>updateCmd\<close> to \<^verbatim>\<open>err\<close> and never
  read them: line 215 overwrites \<^verbatim>\<open>err\<close>. On an error both functions return the empty
  string, and \<^verbatim>\<open>main\<close> goes on with it.
\<close>

definition main_doc2 ::
  "'r sdk \<Rightarrow> (string \<rightharpoonup> string) \<Rightarrow> error + string \<Rightarrow> outcome \<times> 'r ctx" where
  "main_doc2 sdk cfg key =
    (case cfg ''distribution'' of
       None \<Rightarrow> (Panic ''distribution'', [])
     | Some distribution \<Rightarrow>
    (case cfg ''sshUsername'' of
       None \<Rightarrow> (Panic ''sshUsername'', [])
     | Some sshUsername \<Rightarrow>
    (let installCmd' = (case installCmd_doc2 distribution of Inl err \<Rightarrow> [] | Inr s \<Rightarrow> s);
         updateCmd' = (case updateCmd_doc2 distribution of Inl err \<Rightarrow> [] | Inr s \<Rightarrow> s)
     in
    (case key of
       Inl err \<Rightarrow> (Return (Some (ErrorfW (''failed to read private key: '' @ Error err) err)), [])
     | Inr key' \<Rightarrow>
    (let connection = \<lparr>Host = ''localhost'', Port = 32222, User = sshUsername, PrivateKey = key'\<rparr> in
    (case chainLoop_doc2 sdk [] None (commands_doc2 updateCmd' installCmd') connection of
       (Some v, lastResource, ctx1) \<Rightarrow> (Return v, ctx1)
     | (None, lastResource, ctx1) \<Rightarrow>
         (Return None, ctx1 @ [LogInfo ''Packages installed successfully!''])))))))"

section \<open>What the loops submit\<close>

lemma submissions_append: "submissions (xs @ ys) = submissions xs @ submissions ys"
  by (induction xs rule: submissions.induct) simp_all

text \<open>
  The submissions of \<^verbatim>\<open>runIndependentCommands\<close>: one per command, in order, up to and
  including the first one that the SDK refuses; no options; the error of the refused one
  comes back wrapped.
\<close>

lemma runIndependentCommands_shape:
  "runIndependentCommands sdk ctx cs connection = (err, ctx') \<Longrightarrow>
   \<exists>subs. submissions ctx' = submissions ctx @ subs
     \<and> length subs \<le> length cs
     \<and> (\<forall>i<length subs.
           fst (subs ! i) =
             \<lparr>resourceName = name (cs ! i),
              args = \<lparr>Connection = connection, Create = cmd (cs ! i), Triggers = [cmd (cs ! i)]\<rparr>,
              opts = []\<rparr>)
     \<and> (\<forall>i. Suc i < length subs \<longrightarrow> (\<exists>r. snd (subs ! i) = Inr r))
     \<and> (case err of
           None \<Rightarrow> length subs = length cs \<and> (\<forall>i<length subs. \<exists>r. snd (subs ! i) = Inr r)
         | Some e \<Rightarrow> subs \<noteq> [] \<and> (\<exists>e0. snd (last subs) = Inl e0
               \<and> e = ErrorfW (''failed to run command '' @ [CHR 0x27]
                     @ cmd (cs ! (length subs - 1)) @ [CHR 0x27] @ '': '' @ Error e0) e0))"
proof (induction cs arbitrary: ctx)
  case Nil
  then show ?case by simp
next
  case (Cons c cs)
  let ?ctx1 = "ctx @ [LogInfo (name c @ '': '' @ [CHR 0x27] @ cmd c @ [CHR 0x27])]"
  let ?call = "\<lparr>resourceName = name c,
      args = \<lparr>Connection = connection, Create = cmd c, Triggers = [cmd c]\<rparr>,
      opts = [] :: 'a resourceOption list\<rparr>"
  show ?case
  proof (cases "sdk ?ctx1 ?call")
    case (Inl e)
    with Cons.prems
    have "err = Some (ErrorfW (''failed to run command '' @ [CHR 0x27] @ cmd c @ [CHR 0x27]
                @ '': '' @ Error e) e)"
      and "ctx' = ?ctx1 @ [Call ?call (Inl e)]"
      by (auto simp: NewCommand_def Let_def)
    then show ?thesis
      by (intro exI [of _ "[(?call, Inl e)]"]) (simp add: submissions_append)
  next
    case (Inr r)
    with Cons.prems
    have "runIndependentCommands sdk (?ctx1 @ [Call ?call (Inr r)]) cs connection = (err, ctx')"
      by (simp add: NewCommand_def Let_def)
    from Cons.IH [OF this] obtain subs where
      s: "submissions ctx' = submissions (?ctx1 @ [Call ?call (Inr r)]) @ subs"
      and n: "length subs \<le> length cs"
      and m: "\<forall>i<length subs.
           fst (subs ! i) =
             \<lparr>resourceName = name (cs ! i),
              args = \<lparr>Connection = connection, Create = cmd (cs ! i), Triggers = [cmd (cs ! i)]\<rparr>,
              opts = []\<rparr>"
      and ok: "\<forall>i. Suc i < length subs \<longrightarrow> (\<exists>r. snd (subs ! i) = Inr r)"
      and e: "(case err of
           None \<Rightarrow> length subs = length cs \<and> (\<forall>i<length subs. \<exists>r. snd (subs ! i) = Inr r)
         | Some e \<Rightarrow> subs \<noteq> [] \<and> (\<exists>e0. snd (last subs) = Inl e0
               \<and> e = ErrorfW (''failed to run command '' @ [CHR 0x27]
                     @ cmd (cs ! (length subs - 1)) @ [CHR 0x27] @ '': '' @ Error e0) e0))"
      by blast
    let ?subs = "(?call, Inr r :: error + 'a) # subs"
    have 1: "submissions ctx' = submissions ctx @ ?subs"
      using s by (simp add: submissions_append)
    have 2: "length ?subs \<le> length (c # cs)" using n by simp
    have 3: "\<forall>i<length ?subs.
           fst (?subs ! i) =
             \<lparr>resourceName = name ((c # cs) ! i),
              args = \<lparr>Connection = connection, Create = cmd ((c # cs) ! i),
                      Triggers = [cmd ((c # cs) ! i)]\<rparr>,
              opts = []\<rparr>"
      using m by (auto simp: nth_Cons split: nat.splits)
    have 4: "\<forall>i. Suc i < length ?subs \<longrightarrow> (\<exists>r. snd (?subs ! i) = Inr r)"
      using ok by (auto simp: nth_Cons split: nat.splits)
    have 5: "(case err of
           None \<Rightarrow> length ?subs = length (c # cs)
                 \<and> (\<forall>i<length ?subs. \<exists>r. snd (?subs ! i) = Inr r)
         | Some e \<Rightarrow> ?subs \<noteq> [] \<and> (\<exists>e0. snd (last ?subs) = Inl e0
               \<and> e = ErrorfW (''failed to run command '' @ [CHR 0x27]
                     @ cmd ((c # cs) ! (length ?subs - 1)) @ [CHR 0x27] @ '': '' @ Error e0) e0))"
      using e by (cases err) (auto simp: nth_Cons split: nat.splits)
    from 1 2 3 4 5 show ?thesis by blast
  qed
qed

text \<open>
  The submissions of the loop of \<^verbatim>\<open>runOrderedCommands\<close>: the same, and each one depends on
  one resource, the anchor for the first and the resource of the one before for the others.
\<close>

lemma orderedLoop_shape:
  "orderedLoop sdk ctx a cs connection = (err, l, ctx') \<Longrightarrow>
   \<exists>subs. submissions ctx' = submissions ctx @ subs
     \<and> length subs \<le> length cs
     \<and> (\<forall>i<length subs.
           resourceName (fst (subs ! i)) = name (cs ! i)
         \<and> args (fst (subs ! i)) =
             \<lparr>Connection = connection, Create = cmd (cs ! i), Triggers = [cmd (cs ! i)]\<rparr>
         \<and> (i = 0 \<longrightarrow> opts (fst (subs ! i)) = [DependsOn [a]])
         \<and> (\<forall>j. i = Suc j \<longrightarrow>
               (\<exists>r. snd (subs ! j) = Inr r \<and> opts (fst (subs ! i)) = [DependsOn [r]])))
     \<and> (\<forall>i. Suc i < length subs \<longrightarrow> (\<exists>r. snd (subs ! i) = Inr r))
     \<and> (case err of
           None \<Rightarrow> length subs = length cs \<and> (\<forall>i<length subs. \<exists>r. snd (subs ! i) = Inr r)
         | Some e \<Rightarrow> subs \<noteq> [] \<and> (\<exists>e0. snd (last subs) = Inl e0
               \<and> e = ErrorfW (''failed to run command '' @ [CHR 0x27]
                     @ cmd (cs ! (length subs - 1)) @ [CHR 0x27] @ '': '' @ Error e0) e0))"
proof (induction cs arbitrary: ctx a)
  case Nil
  then show ?case by simp
next
  case (Cons c cs)
  let ?ctx1 = "ctx @ [LogInfo (name c @ '': '' @ [CHR 0x27] @ cmd c @ [CHR 0x27])]"
  let ?call = "\<lparr>resourceName = name c,
      args = \<lparr>Connection = connection, Create = cmd c, Triggers = [cmd c]\<rparr>,
      opts = [DependsOn [a]]\<rparr>"
  show ?case
  proof (cases "sdk ?ctx1 ?call")
    case (Inl e)
    with Cons.prems
    have "err = Some (ErrorfW (''failed to run command '' @ [CHR 0x27] @ cmd c @ [CHR 0x27] @ '': '' @ Error e) e)"
      and "ctx' = ?ctx1 @ [Call ?call (Inl e)]"
      by (auto simp: NewCommand_def Let_def)
    then show ?thesis
      by (intro exI [of _ "[(?call, Inl e)]"]) (simp add: submissions_append)
  next
    case (Inr r)
    with Cons.prems
    have "orderedLoop sdk (?ctx1 @ [Call ?call (Inr r)]) r cs connection = (err, l, ctx')"
      by (simp add: NewCommand_def Let_def)
    from Cons.IH [OF this] obtain subs where
      s: "submissions ctx' = submissions (?ctx1 @ [Call ?call (Inr r)]) @ subs"
      and n: "length subs \<le> length cs"
      and m: "\<forall>i<length subs.
           resourceName (fst (subs ! i)) = name (cs ! i)
         \<and> args (fst (subs ! i)) =
             \<lparr>Connection = connection, Create = cmd (cs ! i), Triggers = [cmd (cs ! i)]\<rparr>
         \<and> (i = 0 \<longrightarrow> opts (fst (subs ! i)) = [DependsOn [r]])
         \<and> (\<forall>j. i = Suc j \<longrightarrow>
               (\<exists>r. snd (subs ! j) = Inr r \<and> opts (fst (subs ! i)) = [DependsOn [r]]))"
      and ok: "\<forall>i. Suc i < length subs \<longrightarrow> (\<exists>r. snd (subs ! i) = Inr r)"
      and e: "(case err of
           None \<Rightarrow> length subs = length cs \<and> (\<forall>i<length subs. \<exists>r. snd (subs ! i) = Inr r)
         | Some e \<Rightarrow> subs \<noteq> [] \<and> (\<exists>e0. snd (last subs) = Inl e0
               \<and> e = ErrorfW (''failed to run command '' @ [CHR 0x27]
                     @ cmd (cs ! (length subs - 1)) @ [CHR 0x27] @ '': '' @ Error e0) e0))"
      by blast
    let ?subs = "(?call, Inr r :: error + 'a) # subs"
    have 1: "submissions ctx' = submissions ctx @ ?subs"
      using s by (simp add: submissions_append)
    have 2: "length ?subs \<le> length (c # cs)" using n by simp
    have 3: "\<forall>i<length ?subs.
           resourceName (fst (?subs ! i)) = name ((c # cs) ! i)
         \<and> args (fst (?subs ! i)) =
             \<lparr>Connection = connection, Create = cmd ((c # cs) ! i), Triggers = [cmd ((c # cs) ! i)]\<rparr>
         \<and> (i = 0 \<longrightarrow> opts (fst (?subs ! i)) = [DependsOn [a]])
         \<and> (\<forall>j. i = Suc j \<longrightarrow>
               (\<exists>r. snd (?subs ! j) = Inr r \<and> opts (fst (?subs ! i)) = [DependsOn [r]]))"
    proof (intro allI impI)
      fix i assume i: "i < length ?subs"
      show "resourceName (fst (?subs ! i)) = name ((c # cs) ! i)
         \<and> args (fst (?subs ! i)) =
             \<lparr>Connection = connection, Create = cmd ((c # cs) ! i), Triggers = [cmd ((c # cs) ! i)]\<rparr>
         \<and> (i = 0 \<longrightarrow> opts (fst (?subs ! i)) = [DependsOn [a]])
         \<and> (\<forall>j. i = Suc j \<longrightarrow>
               (\<exists>r. snd (?subs ! j) = Inr r \<and> opts (fst (?subs ! i)) = [DependsOn [r]]))"
      proof (cases i)
        case 0
        then show ?thesis by simp
      next
        case (Suc k)
        with i have k: "k < length subs" by simp
        from m k Suc show ?thesis by (cases k) auto
      qed
    qed
    have 4: "\<forall>i. Suc i < length ?subs \<longrightarrow> (\<exists>r. snd (?subs ! i) = Inr r)"
      using ok by (auto simp: nth_Cons split: nat.splits)
    have 5: "(case err of
           None \<Rightarrow> length ?subs = length (c # cs) \<and> (\<forall>i<length ?subs. \<exists>r. snd (?subs ! i) = Inr r)
         | Some e \<Rightarrow> ?subs \<noteq> [] \<and> (\<exists>e0. snd (last ?subs) = Inl e0
               \<and> e = ErrorfW (''failed to run command '' @ [CHR 0x27]
                     @ cmd ((c # cs) ! (length ?subs - 1)) @ [CHR 0x27] @ '': '' @ Error e0) e0))"
      using e by (cases err) (auto simp: nth_Cons split: nat.splits)
    from 1 2 3 4 5 show ?thesis by blast
  qed
qed

text \<open>The loop of lines 124 to 135 of \<^verbatim>\<open>part_000\<close> submits in the same way.\<close>

lemma independentLoop_part0_shape:
  "independentLoop_part0 sdk ctx cs connection = (ret, ctx') \<Longrightarrow>
   \<exists>subs. submissions ctx' = submissions ctx @ subs
     \<and> length subs \<le> length cs
     \<and> (\<forall>i<length subs.
           fst (subs ! i) =
             \<lparr>resourceName = name (cs ! i),
              args = \<lparr>Connection = connection, Create = cmd (cs ! i), Triggers = [cmd (cs ! i)]\<rparr>,
              opts = []\<rparr>)
     \<and> (\<forall>i. Suc i < length subs \<longrightarrow> (\<exists>r. snd (subs ! i) = Inr r))
     \<and> (case ret of
           None \<Rightarrow> length subs = length cs \<and> (\<forall>i<length subs. \<exists>r. snd (subs ! i) = Inr r)
         | Some v \<Rightarrow> subs \<noteq> [] \<and> (\<exists>e0. snd (last subs) = Inl e0
               \<and> v = Some (ErrorfW (''failed to run command '' @ name (cs ! (length subs - 1))
                     @ '': '' @ Error e0) e0)))"
proof (induction cs arbitrary: ctx)
  case Nil
  then show ?case by simp
next
  case (Cons c cs)
  let ?ctx1 = "ctx @ [LogInfo (''Running command: '' @ [CHR 0x27] @ cmd c @ [CHR 0x27])]"
  let ?call = "\<lparr>resourceName = name c,
      args = \<lparr>Connection = connection, Create = cmd c, Triggers = [cmd c]\<rparr>,
      opts = [] :: 'a resourceOption list\<rparr>"
  show ?case
  proof (cases "sdk ?ctx1 ?call")
    case (Inl e)
    with Cons.prems
    have "ret = Some (Some (ErrorfW (''failed to run command '' @ name c @ '': '' @ Error e) e))"
      and "ctx' = ?ctx1 @ [Call ?call (Inl e)]"
      by (auto simp: NewCommand_def Let_def)
    then show ?thesis
      by (intro exI [of _ "[(?call, Inl e)]"]) (simp add: submissions_append)
  next
    case (Inr r)
    with Cons.prems
    have "independentLoop_part0 sdk (?ctx1 @ [Call ?call (Inr r)]) cs connection = (ret, ctx')"
      by (simp add: NewCommand_def Let_def)
    from Cons.IH [OF this] obtain subs where
      s: "submissions ctx' = submissions (?ctx1 @ [Call ?call (Inr r)]) @ subs"
      and n: "length subs \<le> length cs"
      and m: "\<forall>i<length subs.
           fst (subs ! i) =
             \<lparr>resourceName = name (cs ! i),
              args = \<lparr>Connection = connection, Create = cmd (cs ! i), Triggers = [cmd (cs ! i)]\<rparr>,
              opts = []\<rparr>"
      and ok: "\<forall>i. Suc i < length subs \<longrightarrow> (\<exists>r. snd (subs ! i) = Inr r)"
      and e: "(case ret of
           None \<Rightarrow> length subs = length cs \<and> (\<forall>i<length subs. \<exists>r. snd (subs ! i) = Inr r)
         | Some v \<Rightarrow> subs \<noteq> [] \<and> (\<exists>e0. snd (last subs) = Inl e0
               \<and> v = Some (ErrorfW (''failed to run command '' @ name (cs ! (length subs - 1))
                     @ '': '' @ Error e0) e0)))"
      by blast
    let ?subs = "(?call, Inr r :: error + 'a) # subs"
    have 1: "submissions ctx' = submissions ctx @ ?subs"
      using s by (simp add: submissions_append)
    have 2: "length ?subs \<le> length (c # cs)" using n by simp
    have 3: "\<forall>i<length ?subs.
           fst (?subs ! i) =
             \<lparr>resourceName = name ((c # cs) ! i),
              args = \<lparr>Connection = connection, Create = cmd ((c # cs) ! i),
                      Triggers = [cmd ((c # cs) ! i)]\<rparr>,
              opts = []\<rparr>"
      using m by (auto simp: nth_Cons split: nat.splits)
    have 4: "\<forall>i. Suc i < length ?subs \<longrightarrow> (\<exists>r. snd (?subs ! i) = Inr r)"
      using ok by (auto simp: nth_Cons split: nat.splits)
    have 5: "(case ret of
           None \<Rightarrow> length ?subs = length (c # cs)
                 \<and> (\<forall>i<length ?subs. \<exists>r. snd (?subs ! i) = Inr r)
         | Some v \<Rightarrow> ?subs \<noteq> [] \<and> (\<exists>e0. snd (last ?subs) = Inl e0
               \<and> v = Some (ErrorfW (''failed to run command ''
                     @ name ((c # cs) ! (length ?subs - 1)) @ '': '' @ Error e0) e0)))"
      using e by (cases ret) (auto simp: nth_Cons split: nat.splits)
    from 1 2 3 4 5 show ?thesis by blast
  qed
qed

text \<open>A loop that returned an error made a last submission, and the SDK refused it.\<close>

lemma all_accepted_last:
  assumes "\<forall>i<length subs. \<exists>r. snd (subs ! i) = Inr r" and "subs \<noteq> []"
  shows "snd (last subs) \<noteq> Inl e"
proof -
  from assms(2) have "length subs - 1 < length subs" by simp
  with assms(1) obtain r where "snd (subs ! (length subs - 1)) = Inr r" by blast
  with assms(2) show ?thesis by (simp add: last_conv_nth)
qed

lemma refused_is_last:
  assumes ok: "\<forall>i. Suc i < length subs \<longrightarrow> (\<exists>r. snd (subs ! i) = Inr r)"
    and k: "k < length subs" and f: "snd (subs ! k) = Inl e"
  shows "length subs = Suc k \<and> last subs = subs ! k"
proof -
  have "\<not> Suc k < length subs" using ok f by auto
  with k have "length subs = Suc k" by simp
  moreover from this have "last subs = subs ! k"
    by (metis diff_Suc_1 last_conv_nth length_0_conv nat.distinct(1))
  ultimately show ?thesis by simp
qed

text \<open>
  The chain loops of the two other versions: each submission after the first depends on the
  resource of the one before; the first has no option when the loop starts from \<^verbatim>\<open>nil\<close>.
  A refused submission ends the loop, and the loop makes \<^verbatim>\<open>main\<close> return \<^verbatim>\<open>nil\<close>.
\<close>

lemma baseLoop_part0_shape:
  "baseLoop_part0 sdk ctx a cs connection = (ret, l, ctx') \<Longrightarrow>
   \<exists>subs. submissions ctx' = submissions ctx @ subs
     \<and> length subs \<le> length cs
     \<and> (\<forall>i<length subs.
           resourceName (fst (subs ! i)) = name (cs ! i)
         \<and> args (fst (subs ! i)) =
             \<lparr>Connection = connection, Create = cmd (cs ! i), Triggers = [cmd (cs ! i)]\<rparr>
         \<and> (i = 0 \<longrightarrow> opts (fst (subs ! i)) = (case a of None \<Rightarrow> [] | Some r \<Rightarrow> [DependsOn [r]]))
         \<and> (\<forall>j. i = Suc j \<longrightarrow>
               (\<exists>r. snd (subs ! j) = Inr r \<and> opts (fst (subs ! i)) = [DependsOn [r]])))
     \<and> (\<forall>i. Suc i < length subs \<longrightarrow> (\<exists>r. snd (subs ! i) = Inr r))
     \<and> (case ret of
           None \<Rightarrow> length subs = length cs \<and> (\<forall>i<length subs. \<exists>r. snd (subs ! i) = Inr r)
         | Some v \<Rightarrow> subs \<noteq> [] \<and> (\<exists>e0. snd (last subs) = Inl e0) \<and> v = None)"
proof (induction cs arbitrary: ctx a)
  case Nil
  then show ?case by simp
next
  case (Cons c cs)
  let ?ctx1 = "ctx @ [LogInfo (''Running command: '' @ [CHR 0x27] @ cmd c @ [CHR 0x27])]"
  let ?call = "\<lparr>resourceName = name c,
      args = \<lparr>Connection = connection, Create = cmd c, Triggers = [cmd c]\<rparr>,
      opts = (case a of None \<Rightarrow> [] | Some r \<Rightarrow> [DependsOn [r]])\<rparr>"
  show ?case
  proof (cases "sdk ?ctx1 ?call")
    case (Inl e)
    with Cons.prems
    have "ret = Some None"
      and "ctx' = ?ctx1 @ [Call ?call (Inl e),
             Printf (''failed to run command '' @ [CHR 0x27] @ cmd c @ [CHR 0x27] @ '': ''
                     @ Error e)]"
      by (auto simp: NewCommand_def Let_def)
    then show ?thesis
      by (intro exI [of _ "[(?call, Inl e)]"]) (simp add: submissions_append)
  next
    case (Inr r)
    with Cons.prems
    have "baseLoop_part0 sdk (?ctx1 @ [Call ?call (Inr r)]) (Some r) cs connection = (ret, l, ctx')"
      by (simp add: NewCommand_def Let_def)
    from Cons.IH [OF this] obtain subs where
      s: "submissions ctx' = submissions (?ctx1 @ [Call ?call (Inr r)]) @ subs"
      and n: "length subs \<le> length cs"
      and m: "\<forall>i<length subs.
           resourceName (fst (subs ! i)) = name (cs ! i)
         \<and> args (fst (subs ! i)) =
             \<lparr>Connection = connection, Create = cmd (cs ! i), Triggers = [cmd (cs ! i)]\<rparr>
         \<and> (i = 0 \<longrightarrow> opts (fst (subs ! i)) = [DependsOn [r]])
         \<and> (\<forall>j. i = Suc j \<longrightarrow>
               (\<exists>r. snd (subs ! j) = Inr r \<and> opts (fst (subs ! i)) = [DependsOn [r]]))"
      and ok: "\<forall>i. Suc i < length subs \<longrightarrow> (\<exists>r. snd (subs ! i) = Inr r)"
      and e: "(case ret of
           None \<Rightarrow> length subs = length cs \<and> (\<forall>i<length subs. \<exists>r. snd (subs ! i) = Inr r)
         | Some v \<Rightarrow> subs \<noteq> [] \<and> (\<exists>e0. snd (last subs) = Inl e0) \<and> v = None)"
      by auto
    let ?subs = "(?call, Inr r :: error + 'a) # subs"
    have 1: "submissions ctx' = submissions ctx @ ?subs"
      using s by (simp add: submissions_append)
    have 2: "length ?subs \<le> length (c # cs)" using n by simp
    have 3: "\<forall>i<length ?subs.
           resourceName (fst (?subs ! i)) = name ((c # cs) ! i)
         \<and> args (fst (?subs ! i)) =
             \<lparr>Connection = connection, Create = cmd ((c # cs) ! i),
              Triggers = [cmd ((c # cs) ! i)]\<rparr>
         \<and> (i = 0 \<longrightarrow> opts (fst (?subs ! i)) = (case a of None \<Rightarrow> [] | Some r \<Rightarrow> [DependsOn [r]]))
         \<and> (\<forall>j. i = Suc j \<longrightarrow>
               (\<exists>r. snd (?subs ! j) = Inr r \<and> opts (fst (?subs ! i)) = [DependsOn [r]]))"
    proof (intro allI impI)
      fix i assume i: "i < length ?subs"
      show "resourceName (fst (?subs ! i)) = name ((c # cs) ! i)
         \<and> args (fst (?subs ! i)) =
             \<lparr>Connection = connection, Create = cmd ((c # cs) ! i),
              Triggers = [cmd ((c # cs) ! i)]\<rparr>
         \<and> (i = 0 \<longrightarrow> opts (fst (?subs ! i)) = (case a of None \<Rightarrow> [] | Some r \<Rightarrow> [DependsOn [r]]))
         \<and> (\<forall>j. i = Suc j \<longrightarrow>
               (\<exists>r. snd (?subs ! j) = Inr r \<and> opts (fst (?subs ! i)) = [DependsOn [r]]))"
      proof (cases i)
        case 0
        then show ?thesis by simp
      next
        case (Suc k)
        with i have k: "k < length subs" by simp
        from m k Suc show ?thesis by (cases k) auto
      qed
    qed
    have 4: "\<forall>i. Suc i < length ?subs \<longrightarrow> (\<exists>r. snd (?subs ! i) = Inr r)"
      using ok by (auto simp: nth_Cons split: nat.splits)
    have 5: "(case ret of
           None \<Rightarrow> length ?subs = length (c # cs)
                 \<and> (\<forall>i<length ?subs. \<exists>r. snd (?subs ! i) = Inr r)
         | Some v \<Rightarrow> ?subs \<noteq> [] \<and> (\<exists>e0. snd (last ?subs) = Inl e0) \<and> v = None)"
      using e by (cases ret) (auto simp: nth_Cons split: nat.splits)
    from 1 2 3 4 5 show ?thesis by blast
  qed
qed

lemma chainLoop_doc2_shape:
  "chainLoop_doc2 sdk ctx a cs connection = (ret, l, ctx') \<Longrightarrow>
   \<exists>subs. submissions ctx' = submissions ctx @ subs
     \<and> length subs \<le> length cs
     \<and> (\<forall>i<length subs.
           resourceName (fst (subs ! i)) = name (cs ! i)
         \<and> args (fst (subs ! i)) =
             \<lparr>Connection = connection, Create = cmd (cs ! i), Triggers = []\<rparr>
         \<and> (i = 0 \<longrightarrow> opts (fst (subs ! i)) = (case a of None \<Rightarrow> [] | Some r \<Rightarrow> [DependsOn [r]]))
         \<and> (\<forall>j. i = Suc j \<longrightarrow>
               (\<exists>r. snd (subs ! j) = Inr r \<and> opts (fst (subs ! i)) = [DependsOn [r]])))
     \<and> (\<forall>i. Suc i < length subs \<longrightarrow> (\<exists>r. snd (subs ! i) = Inr r))
     \<and> (case ret of
           None \<Rightarrow> length subs = length cs \<and> (\<forall>i<length subs. \<exists>r. snd (subs ! i) = Inr r)
         | Some v \<Rightarrow> subs \<noteq> [] \<and> (\<exists>e0. snd (last subs) = Inl e0) \<and> v = None)"
proof (induction cs arbitrary: ctx a)
  case Nil
  then show ?case by simp
next
  case (Cons c cs)
  let ?ctx1 = "ctx @ [LogInfo (''Running command: '' @ [CHR 0x27] @ cmd c @ [CHR 0x27])]"
  let ?call = "\<lparr>resourceName = name c,
      args = \<lparr>Connection = connection, Create = cmd c, Triggers = []\<rparr>,
      opts = (case a of None \<Rightarrow> [] | Some r \<Rightarrow> [DependsOn [r]])\<rparr>"
  show ?case
  proof (cases "sdk ?ctx1 ?call")
    case (Inl e)
    with Cons.prems
    have "ret = Some None"
      and "ctx' = ?ctx1 @ [Call ?call (Inl e),
             Printf (''failed to run command '' @ [CHR 0x27] @ cmd c @ [CHR 0x27] @ '': ''
                     @ Error e)]"
      by (auto simp: NewCommand_def Let_def)
    then show ?thesis
      by (intro exI [of _ "[(?call, Inl e)]"]) (simp add: submissions_append)
  next
    case (Inr r)
    with Cons.prems
    have "chainLoop_doc2 sdk (?ctx1 @ [Call ?call (Inr r)]) (Some r) cs connection = (ret, l, ctx')"
      by (simp add: NewCommand_def Let_def)
    from Cons.IH [OF this] obtain subs where
      s: "submissions ctx' = submissions (?ctx1 @ [Call ?call (Inr r)]) @ subs"
      and n: "length subs \<le> length cs"
      and m: "\<forall>i<length subs.
           resourceName (fst (subs ! i)) = name (cs ! i)
         \<and> args (fst (subs ! i)) =
             \<lparr>Connection = connection, Create = cmd (cs ! i), Triggers = []\<rparr>
         \<and> (i = 0 \<longrightarrow> opts (fst (subs ! i)) = [DependsOn [r]])
         \<and> (\<forall>j. i = Suc j \<longrightarrow>
               (\<exists>r. snd (subs ! j) = Inr r \<and> opts (fst (subs ! i)) = [DependsOn [r]]))"
      and ok: "\<forall>i. Suc i < length subs \<longrightarrow> (\<exists>r. snd (subs ! i) = Inr r)"
      and e: "(case ret of
           None \<Rightarrow> length subs = length cs \<and> (\<forall>i<length subs. \<exists>r. snd (subs ! i) = Inr r)
         | Some v \<Rightarrow> subs \<noteq> [] \<and> (\<exists>e0. snd (last subs) = Inl e0) \<and> v = None)"
      by auto
    let ?subs = "(?call, Inr r :: error + 'a) # subs"
    have 1: "submissions ctx' = submissions ctx @ ?subs"
      using s by (simp add: submissions_append)
    have 2: "length ?subs \<le> length (c # cs)" using n by simp
    have 3: "\<forall>i<length ?subs.
           resourceName (fst (?subs ! i)) = name ((c # cs) ! i)
         \<and> args (fst (?subs ! i)) =
             \<lparr>Connection = connection, Create = cmd ((c # cs) ! i),
              Triggers = []\<rparr>
         \<and> (i = 0 \<longrightarrow> opts (fst (?subs ! i)) = (case a of None \<Rightarrow> [] | Some r \<Rightarrow> [DependsOn [r]]))
         \<and> (\<forall>j. i = Suc j \<longrightarrow>
               (\<exists>r. snd (?subs ! j) = Inr r \<and> opts (fst (?subs ! i)) = [DependsOn [r]]))"
    proof (intro allI impI)
      fix i assume i: "i < length ?subs"
      show "resourceName (fst (?subs ! i)) = name ((c # cs) ! i)
         \<and> args (fst (?subs ! i)) =
             \<lparr>Connection = connection, Create = cmd ((c # cs) ! i),
              Triggers = []\<rparr>
         \<and> (i = 0 \<longrightarrow> opts (fst (?subs ! i)) = (case a of None \<Rightarrow> [] | Some r \<Rightarrow> [DependsOn [r]]))
         \<and> (\<forall>j. i = Suc j \<longrightarrow>
               (\<exists>r. snd (?subs ! j) = Inr r \<and> opts (fst (?subs ! i)) = [DependsOn [r]]))"
      proof (cases i)
        case 0
        then show ?thesis by simp
      next
        case (Suc k)
        with i have k: "k < length subs" by simp
        from m k Suc show ?thesis by (cases k) auto
      qed
    qed
    have 4: "\<forall>i. Suc i < length ?subs \<longrightarrow> (\<exists>r. snd (?subs ! i) = Inr r)"
      using ok by (auto simp: nth_Cons split: nat.splits)
    have 5: "(case ret of
           None \<Rightarrow> length ?subs = length (c # cs)
                 \<and> (\<forall>i<length ?subs. \<exists>r. snd (?subs ! i) = Inr r)
         | Some v \<Rightarrow> ?subs \<noteq> [] \<and> (\<exists>e0. snd (last ?subs) = Inl e0) \<and> v = None)"
      using e by (cases ret) (auto simp: nth_Cons split: nat.splits)
    from 1 2 3 4 5 show ?thesis by blast
  qed
qed

text \<open>
  A refused submission is the last one, and the executors of \<^verbatim>\<open>src/main.go\<close> return its
  error wrapped with the text of the command; the independent loop of \<^verbatim>\<open>part_000\<close> wraps
  it with the name of the command.
\<close>

lemma runOrderedCommands_first_failure:
  assumes run: "runOrderedCommands sdk ctx update_cmd commands connection = (err, ctx')"
    and subs: "submissions ctx' = submissions ctx @ subs"
    and k: "k < length subs" and f: "snd (subs ! k) = Inl e"
  shows "length subs = Suc k \<and> k < length commands
     \<and> resourceName (fst (subs ! k)) = name (commands ! k)
     \<and> err = Some (ErrorfW (''failed to run command '' @ [CHR 0x27] @ cmd (commands ! k)
                      @ [CHR 0x27] @ '': '' @ Error e) e)"
proof -
  from run obtain l where "orderedLoop sdk ctx update_cmd commands connection = (err, l, ctx')"
    by (auto simp: runOrderedCommands_def split: prod.splits)
  from orderedLoop_shape [OF this] subs have
    n: "length subs \<le> length commands"
    and m: "\<forall>i<length subs. resourceName (fst (subs ! i)) = name (commands ! i)"
    and ok: "\<forall>i. Suc i < length subs \<longrightarrow> (\<exists>r. snd (subs ! i) = Inr r)"
    and c: "(case err of
           None \<Rightarrow> length subs = length commands
                 \<and> (\<forall>i<length subs. \<exists>r. snd (subs ! i) = Inr r)
         | Some x \<Rightarrow> subs \<noteq> [] \<and> (\<exists>e0. snd (last subs) = Inl e0
               \<and> x = ErrorfW (''failed to run command '' @ [CHR 0x27]
                     @ cmd (commands ! (length subs - 1)) @ [CHR 0x27] @ '': '' @ Error e0) e0))"
    by auto
  from refused_is_last [OF ok k f] have len: "length subs = Suc k" and la: "last subs = subs ! k"
    by simp_all
  have "err = Some (ErrorfW (''failed to run command '' @ [CHR 0x27] @ cmd (commands ! k)
                      @ [CHR 0x27] @ '': '' @ Error e) e)"
  proof (cases err)
    case None
    with c k f show ?thesis by auto
  next
    case (Some x)
    with c la f len show ?thesis by auto
  qed
  with len n m k show ?thesis by auto
qed

lemma runIndependentCommands_stops:
  assumes run: "runIndependentCommands sdk ctx commands connection = (err, ctx')"
    and subs: "submissions ctx' = submissions ctx @ subs"
    and k: "k < length subs" and f: "snd (subs ! k) = Inl e"
  shows "length subs = Suc k \<and> k < length commands
     \<and> resourceName (fst (subs ! k)) = name (commands ! k)
     \<and> err = Some (ErrorfW (''failed to run command '' @ [CHR 0x27] @ cmd (commands ! k)
                      @ [CHR 0x27] @ '': '' @ Error e) e)"
proof -
  from runIndependentCommands_shape [OF run] subs have
    n: "length subs \<le> length commands"
    and m: "\<forall>i<length subs. resourceName (fst (subs ! i)) = name (commands ! i)"
    and ok: "\<forall>i. Suc i < length subs \<longrightarrow> (\<exists>r. snd (subs ! i) = Inr r)"
    and c: "(case err of
           None \<Rightarrow> length subs = length commands
                 \<and> (\<forall>i<length subs. \<exists>r. snd (subs ! i) = Inr r)
         | Some x \<Rightarrow> subs \<noteq> [] \<and> (\<exists>e0. snd (last subs) = Inl e0
               \<and> x = ErrorfW (''failed to run command '' @ [CHR 0x27]
                     @ cmd (commands ! (length subs - 1)) @ [CHR 0x27] @ '': '' @ Error e0) e0))"
    by auto
  from refused_is_last [OF ok k f] have len: "length subs = Suc k" and la: "last subs = subs ! k"
    by simp_all
  have "err = Some (ErrorfW (''failed to run command '' @ [CHR 0x27] @ cmd (commands ! k)
                      @ [CHR 0x27] @ '': '' @ Error e) e)"
  proof (cases err)
    case None
    with c k f show ?thesis by auto
  next
    case (Some x)
    with c la f len show ?thesis by auto
  qed
  with len n m k show ?thesis by auto
qed

lemma independentLoop_part0_stops:
  assumes run: "independentLoop_part0 sdk ctx commands connection = (ret, ctx')"
    and subs: "submissions ctx' = submissions ctx @ subs"
    and k: "k < length subs" and f: "snd (subs ! k) = Inl e"
  shows "length subs = Suc k \<and> k < length commands
     \<and> resourceName (fst (subs ! k)) = name (commands ! k)
     \<and> ret = Some (Some (ErrorfW (''failed to run command '' @ name (commands ! k)
                      @ '': '' @ Error e) e))"
proof -
  from independentLoop_part0_shape [OF run] subs have
    n: "length subs \<le> length commands"
    and m: "\<forall>i<length subs. resourceName (fst (subs ! i)) = name (commands ! i)"
    and ok: "\<forall>i. Suc i < length subs \<longrightarrow> (\<exists>r. snd (subs ! i) = Inr r)"
    and c: "(case ret of
           None \<Rightarrow> length subs = length commands
                 \<and> (\<forall>i<length subs. \<exists>r. snd (subs ! i) = Inr r)
         | Some v \<Rightarrow> subs \<noteq> [] \<and> (\<exists>e0. snd (last subs) = Inl e0
               \<and> v = Some (ErrorfW (''failed to run command ''
                     @ name (commands ! (length subs - 1)) @ '': '' @ Error e0) e0)))"
    by auto
  from refused_is_last [OF ok k f] have len: "length subs = Suc k" and la: "last subs = subs ! k"
    by simp_all
  have "ret = Some (Some (ErrorfW (''failed to run command '' @ name (commands ! k)
                      @ '': '' @ Error e) e))"
  proof (cases ret)
    case None
    with c k f show ?thesis by auto
  next
    case (Some x)
    with c la f len show ?thesis by auto
  qed
  with len n m k show ?thesis by auto
qed

section \<open>The names of the submitted commands\<close>

text \<open>Every loop submits, under their names, a prefix of the commands it was given.\<close>

lemma names_prefix:
  assumes "length subs \<le> length cs"
    and "\<forall>i<length subs. resourceName (fst (subs ! i)) = name (cs ! i)"
  shows "map (resourceName \<circ> fst) subs = take (length subs) (map name cs)"
  using assms by (auto intro!: nth_equalityI)

lemma runOrderedCommands_names:
  assumes "runOrderedCommands sdk ctx a cs connection = (err, ctx')"
  shows "\<exists>n. map (resourceName \<circ> fst) (submissions ctx')
           = map (resourceName \<circ> fst) (submissions ctx) @ take n (map name cs)"
proof -
  from assms obtain l where "orderedLoop sdk ctx a cs connection = (err, l, ctx')"
    by (auto simp: runOrderedCommands_def split: prod.splits)
  from orderedLoop_shape [OF this] obtain subs where
    "submissions ctx' = submissions ctx @ subs" "length subs \<le> length cs"
    "\<forall>i<length subs. resourceName (fst (subs ! i)) = name (cs ! i)"
    by blast
  with names_prefix [of subs cs] show ?thesis by auto
qed

lemma runIndependentCommands_names:
  assumes "runIndependentCommands sdk ctx cs connection = (err, ctx')"
  shows "\<exists>n. map (resourceName \<circ> fst) (submissions ctx')
           = map (resourceName \<circ> fst) (submissions ctx) @ take n (map name cs)"
proof -
  from runIndependentCommands_shape [OF assms] obtain subs where
    "submissions ctx' = submissions ctx @ subs" "length subs \<le> length cs"
    "\<forall>i<length subs. resourceName (fst (subs ! i)) = name (cs ! i)"
    by auto
  with names_prefix [of subs cs] show ?thesis by auto
qed

lemma independentLoop_part0_names:
  assumes "independentLoop_part0 sdk ctx cs connection = (ret, ctx')"
  shows "\<exists>n. map (resourceName \<circ> fst) (submissions ctx')
           = map (resourceName \<circ> fst) (submissions ctx) @ take n (map name cs)"
proof -
  from independentLoop_part0_shape [OF assms] obtain subs where
    "submissions ctx' = submissions ctx @ subs" "length subs \<le> length cs"
    "\<forall>i<length subs. resourceName (fst (subs ! i)) = name (cs ! i)"
    by auto
  with names_prefix [of subs cs] show ?thesis by auto
qed

lemma baseLoop_part0_names:
  assumes "baseLoop_part0 sdk ctx a cs connection = (ret, l, ctx')"
  shows "\<exists>n. map (resourceName \<circ> fst) (submissions ctx')
           = map (resourceName \<circ> fst) (submissions ctx) @ take n (map name cs)"
proof -
  from baseLoop_part0_shape [OF assms] obtain subs where
    "submissions ctx' = submissions ctx @ subs" "length subs \<le> length cs"
    "\<forall>i<length subs. resourceName (fst (subs ! i)) = name (cs ! i)"
    by blast
  with names_prefix [of subs cs] show ?thesis by auto
qed

lemma chainLoop_doc2_names:
  assumes "chainLoop_doc2 sdk ctx a cs connection = (ret, l, ctx')"
  shows "\<exists>n. map (resourceName \<circ> fst) (submissions ctx')
           = map (resourceName \<circ> fst) (submissions ctx) @ take n (map name cs)"
proof -
  from chainLoop_doc2_shape [OF assms] obtain subs where
    "submissions ctx' = submissions ctx @ subs" "length subs \<le> length cs"
    "\<forall>i<length subs. resourceName (fst (subs ! i)) = name (cs ! i)"
    by blast
  with names_prefix [of subs cs] show ?thesis by auto
qed

lemma distinct_takes:
  assumes "distinct (xs @ ys @ zs)"
  shows "distinct (xs @ take n ys @ take m zs)"
  using assms by (auto simp: distinct_take dest!: in_set_takeD)

lemma setup_commands_names:
  "map name (setup_commands i e) =
     [''install-packages'', ''install-cargo'', ''install-cargo-packages'', ''setup-config'',
      ''setup-hacks'', ''set-zlogin'', ''use-zsh'']"
  by (simp add: setup_commands_def)

lemma extra_commands_names:
  "map name extra_commands = [''install-starship'', ''install-uv'', ''starship-disable-container'']"
  by (simp add: extra_commands_def)

lemma base_commands_part0_names:
  "map name (base_commands_part0 u i e) = [''update-system'', ''install-packages'', ''use-zsh'']"
  by (simp add: base_commands_part0_def)

lemma commands_part0_names:
  "map name commands_part0 =
     [''install-cargo'', ''setup-config'', ''setup-hacks'', ''install-starship'',
      ''starship-disable-container'', ''set-zlogin'']"
  by (simp add: commands_part0_def)

lemma commands_doc2_names:
  "map name (commands_doc2 u i) =
     [''update-system'', ''install-packages'', ''setup-home'', ''setup-config'', ''setup-hacks'',
      ''run-setup'', ''use-zsh'', ''install-starship'', ''starship-disable-container'',
      ''use-starship'']"
  by (simp add: commands_doc2_def)

lemma main_after_chain_distinct:
  assumes o: "runOrderedCommands sdk [Call c (Inr b)] b (setup_commands i e) conn = (err2, ctx2)"
    and c: "resourceName c = ''update-system''"
  shows "distinct (map (resourceName \<circ> fst) (submissions ctx2))"
    and "runIndependentCommands sdk ctx2 extra_commands conn = (err3, ctx3)
         \<Longrightarrow> distinct (map (resourceName \<circ> fst) (submissions ctx3))"
proof -
  have full: "distinct ([''update-system''] @ map name (setup_commands i e) @ map name extra_commands)"
    unfolding setup_commands_names extra_commands_names by simp
  from runOrderedCommands_names [OF o] c obtain n where
    n: "map (resourceName \<circ> fst) (submissions ctx2)
          = [''update-system''] @ take n (map name (setup_commands i e))"
    by auto
  from distinct_takes [OF full, of n 0]
  show "distinct (map (resourceName \<circ> fst) (submissions ctx2))"
    unfolding n by simp
  assume p: "runIndependentCommands sdk ctx2 extra_commands conn = (err3, ctx3)"
  from runIndependentCommands_names [OF p] n obtain m where
    m: "map (resourceName \<circ> fst) (submissions ctx3)
          = [''update-system''] @ take n (map name (setup_commands i e))
            @ take m (map name extra_commands)"
    by auto
  from distinct_takes [OF full, of n m]
  show "distinct (map (resourceName \<circ> fst) (submissions ctx3))"
    unfolding m .
qed

lemma main_names_distinct:
  "distinct (map (resourceName \<circ> fst) (submissions (snd (main sdk cfg key now))))"
  unfolding main_def
  by (auto simp: Let_def NewCommand_def submissions_append
      split: option.splits sum.splits prod.splits
      intro: main_after_chain_distinct)

lemma main_part0_after_chain_distinct:
  assumes o: "baseLoop_part0 sdk [] a (base_commands_part0 u i e) conn = (ret, l, ctx1)"
  shows "distinct (map (resourceName \<circ> fst) (submissions ctx1))"
    and "independentLoop_part0 sdk ctx1 commands_part0 conn = (ret2, ctx2)
         \<Longrightarrow> distinct (map (resourceName \<circ> fst) (submissions ctx2))"
proof -
  have full: "distinct ([] @ map name (base_commands_part0 u i e) @ map name commands_part0)"
    unfolding base_commands_part0_names commands_part0_names by simp
  from baseLoop_part0_names [OF o] obtain n where
    n: "map (resourceName \<circ> fst) (submissions ctx1)
          = take n (map name (base_commands_part0 u i e))"
    by auto
  from distinct_takes [OF full, of n 0]
  show "distinct (map (resourceName \<circ> fst) (submissions ctx1))"
    unfolding n by simp
  assume p: "independentLoop_part0 sdk ctx1 commands_part0 conn = (ret2, ctx2)"
  from independentLoop_part0_names [OF p] n obtain m where
    m: "map (resourceName \<circ> fst) (submissions ctx2)
          = [] @ take n (map name (base_commands_part0 u i e)) @ take m (map name commands_part0)"
    by auto
  from distinct_takes [OF full, of n m]
  show "distinct (map (resourceName \<circ> fst) (submissions ctx2))"
    unfolding m .
qed

lemma main_part0_names_distinct:
  "distinct (map (resourceName \<circ> fst) (submissions (snd (main_part0 sdk cfg key))))"
  unfolding main_part0_def
  by (auto simp: Let_def submissions_append
      split: option.splits sum.splits prod.splits
      intro: main_part0_after_chain_distinct)

lemma main_doc2_after_chain_distinct:
  assumes o: "chainLoop_doc2 sdk [] a (commands_doc2 u i) conn = (ret, l, ctx1)"
  shows "distinct (map (resourceName \<circ> fst) (submissions ctx1))"
proof -
  have full: "distinct (map name (commands_doc2 u i))"
    unfolding commands_doc2_names by simp
  from chainLoop_doc2_names [OF o] obtain n where
    n: "map (resourceName \<circ> fst) (submissions ctx1) = take n (map name (commands_doc2 u i))"
    by auto
  from full show ?thesis unfolding n by (rule distinct_take)
qed

lemma main_doc2_names_distinct:
  "distinct (map (resourceName \<circ> fst) (submissions (snd (main_doc2 sdk cfg key))))"
  unfolding main_doc2_def
  by (auto simp: Let_def submissions_append
      split: option.splits sum.splits prod.splits
      intro: main_doc2_after_chain_distinct)

section \<open>Triggers and the control flow of \<^verbatim>\<open>main\<close>\<close>

text \<open>Both executors give each command its own text as the only trigger.\<close>

lemma own_text_trigger:
  assumes "\<forall>i<length subs. args (fst (subs ! i)) =
             \<lparr>Connection = connection, Create = cmd (cs ! i), Triggers = [cmd (cs ! i)]\<rparr>"
  shows "\<forall>s\<in>set subs. Triggers (args (fst s)) = [Create (args (fst s))]"
proof
  fix s assume "s \<in> set subs"
  then obtain i where "i < length subs" and "subs ! i = s" by (auto simp: in_set_conv_nth)
  with assms have "args (fst s) =
      \<lparr>Connection = connection, Create = cmd (cs ! i), Triggers = [cmd (cs ! i)]\<rparr>"
    by auto
  then show "Triggers (args (fst s)) = [Create (args (fst s))]" by simp
qed

lemma runOrderedCommands_triggers:
  assumes "runOrderedCommands sdk ctx a cs connection = (err, ctx')"
  shows "\<exists>subs. submissions ctx' = submissions ctx @ subs
     \<and> (\<forall>i<length subs. args (fst (subs ! i)) =
             \<lparr>Connection = connection, Create = cmd (cs ! i), Triggers = [cmd (cs ! i)]\<rparr>)"
proof -
  from assms obtain l where "orderedLoop sdk ctx a cs connection = (err, l, ctx')"
    by (auto simp: runOrderedCommands_def split: prod.splits)
  from orderedLoop_shape [OF this] show ?thesis by blast
qed

lemma runIndependentCommands_triggers:
  assumes "runIndependentCommands sdk ctx cs connection = (err, ctx')"
  shows "\<exists>subs. submissions ctx' = submissions ctx @ subs
     \<and> (\<forall>i<length subs. args (fst (subs ! i)) =
             \<lparr>Connection = connection, Create = cmd (cs ! i), Triggers = [cmd (cs ! i)]\<rparr>)"
proof -
  from runIndependentCommands_shape [OF assms] obtain subs where
    "submissions ctx' = submissions ctx @ subs"
    "\<forall>i<length subs. fst (subs ! i) =
             \<lparr>resourceName = name (cs ! i),
              args = \<lparr>Connection = connection, Create = cmd (cs ! i), Triggers = [cmd (cs ! i)]\<rparr>,
              opts = []\<rparr>"
    by blast
  then show ?thesis by (intro exI [of _ subs]) simp
qed

lemma main_after_chain_triggers:
  assumes o: "runOrderedCommands sdk [Call c (Inr b)] b cs conn = (err2, ctx2)"
  shows "\<exists>rest. submissions ctx2 = (c, Inr b) # rest
           \<and> (\<forall>s\<in>set rest. Triggers (args (fst s)) = [Create (args (fst s))])"
    and "runIndependentCommands sdk ctx2 cs' conn = (err3, ctx3)
         \<Longrightarrow> \<exists>rest. submissions ctx3 = (c, Inr b) # rest
           \<and> (\<forall>s\<in>set rest. Triggers (args (fst s)) = [Create (args (fst s))])"
proof -
  from runOrderedCommands_triggers [OF o] obtain subs where
    s: "submissions ctx2 = (c, Inr b) # subs"
    and t: "\<forall>i<length subs. args (fst (subs ! i)) =
             \<lparr>Connection = conn, Create = cmd (cs ! i), Triggers = [cmd (cs ! i)]\<rparr>"
    by auto
  note t2 = own_text_trigger [OF t]
  from s t2 show "\<exists>rest. submissions ctx2 = (c, Inr b) # rest
           \<and> (\<forall>s\<in>set rest. Triggers (args (fst s)) = [Create (args (fst s))])"
    by blast
  assume p: "runIndependentCommands sdk ctx2 cs' conn = (err3, ctx3)"
  from runIndependentCommands_triggers [OF p] s obtain subs' where
    s': "submissions ctx3 = (c, Inr b) # subs @ subs'"
    and t': "\<forall>i<length subs'. args (fst (subs' ! i)) =
             \<lparr>Connection = conn, Create = cmd (cs' ! i), Triggers = [cmd (cs' ! i)]\<rparr>"
    by auto
  note t3 = own_text_trigger [OF t']
  from t2 t3 have "\<forall>s\<in>set (subs @ subs'). Triggers (args (fst s)) = [Create (args (fst s))]"
    by auto
  with s' show "\<exists>rest. submissions ctx3 = (c, Inr b) # rest
           \<and> (\<forall>s\<in>set rest. Triggers (args (fst s)) = [Create (args (fst s))])"
    by blast
qed

text \<open>
  The ways through \<^verbatim>\<open>main\<close> of \<^verbatim>\<open>src/main.go\<close>: it returns before any submission, or the
  SDK refuses \<^verbatim>\<open>update-system\<close>, or a command of the chain, or a command of the independent
  set, or nothing.
\<close>

lemma main_cases [case_names early update_refused chain_refused set_refused complete]:
  obtains
    (early) "snd (main sdk cfg key now) = []"
  | (update_refused) c e where
      "resourceName c = ''update-system''" "Triggers (args c) = [now]" "opts c = []"
      "snd (main sdk cfg key now) = [Call c (Inl e)]"
      "fst (main sdk cfg key now)
         = Return (Some (ErrorfW (''failed to update the system: '' @ Error e) e))"
  | (chain_refused) c b i x conn err ctx2 where
      "resourceName c = ''update-system''" "Triggers (args c) = [now]" "opts c = []"
      "runOrderedCommands sdk [Call c (Inr b)] b (setup_commands i x) conn = (Some err, ctx2)"
      "snd (main sdk cfg key now) = ctx2 @ [LogError (''Failed to run base commands: '' @ Error err)]"
      "fst (main sdk cfg key now) = Return (Some err)"
  | (set_refused) c b i x conn ctx2 err ctx3 where
      "resourceName c = ''update-system''" "Triggers (args c) = [now]" "opts c = []"
      "runOrderedCommands sdk [Call c (Inr b)] b (setup_commands i x) conn = (None, ctx2)"
      "runIndependentCommands sdk ctx2 extra_commands conn = (Some err, ctx3)"
      "snd (main sdk cfg key now) = ctx3 @ [LogError (''Failed to run setup commands: '' @ Error err)]"
      "fst (main sdk cfg key now) = Return (Some err)"
  | (complete) c b i x conn ctx2 ctx3 d where
      "resourceName c = ''update-system''" "Triggers (args c) = [now]" "opts c = []"
      "runOrderedCommands sdk [Call c (Inr b)] b (setup_commands i x) conn = (None, ctx2)"
      "runIndependentCommands sdk ctx2 extra_commands conn = (None, ctx3)"
      "snd (main sdk cfg key now) = ctx3 @ [LogInfo (d @ '' setup complete.'')]"
      "fst (main sdk cfg key now) = Return None"
proof (cases "cfg ''distribution''")
  case None
  then show ?thesis by (intro early) (simp add: main_def)
next
  case d: (Some d)
  show ?thesis
  proof (cases "cfg ''sshUsername''")
    case None
    with d show ?thesis by (intro early) (simp add: main_def)
  next
    case u: (Some u)
    show ?thesis
    proof (cases key)
      case (Inl e)
      with d u show ?thesis by (intro early) (simp add: main_def)
    next
      case k: (Inr k)
      show ?thesis
      proof (cases "installCmd d")
        case (Inl e)
        with d u k show ?thesis by (intro early) (simp add: main_def)
      next
        case i: (Inr i)
        show ?thesis
        proof (cases "updateCmd d")
          case (Inl e)
          with d u k i show ?thesis by (intro early) (simp add: main_def)
        next
          case up: (Inr up)
          let ?conn = "\<lparr>Host = ''localhost'', Port = 32222, User = u, PrivateKey = k\<rparr>"
          let ?c = "\<lparr>resourceName = ''update-system'',
              args = \<lparr>Connection = ?conn, Create = up, Triggers = [now]\<rparr>,
              opts = [] :: 'a resourceOption list\<rparr>"
          show ?thesis
          proof (cases "sdk [] ?c")
            case (Inl e)
            with d u k i up show ?thesis
              by (intro update_refused [of ?c e]) (simp_all add: main_def NewCommand_def Let_def)
          next
            case b: (Inr b)
            obtain err2 ctx2 where o: "runOrderedCommands sdk [Call ?c (Inr b)] b
                (setup_commands i (extraPackagesForDistro d)) ?conn = (err2, ctx2)"
              by (cases "runOrderedCommands sdk [Call ?c (Inr b)] b
                (setup_commands i (extraPackagesForDistro d)) ?conn") blast
            show ?thesis
            proof (cases err2)
              case (Some err)
              with d u k i up b o show ?thesis
                by (intro chain_refused [of ?c b i "extraPackagesForDistro d" ?conn err ctx2])
                   (simp_all add: main_def NewCommand_def Let_def)
            next
              case None
              obtain err3 ctx3 where p:
                "runIndependentCommands sdk ctx2 extra_commands ?conn = (err3, ctx3)"
                by (cases "runIndependentCommands sdk ctx2 extra_commands ?conn") blast
              show ?thesis
              proof (cases err3)
                case (Some err)
                with None d u k i up b o p show ?thesis
                  by (intro set_refused [of ?c b i "extraPackagesForDistro d" ?conn ctx2 err ctx3])
                     (simp_all add: main_def NewCommand_def Let_def)
              next
                case n3: None
                with None d u k i up b o p show ?thesis
                  by (intro complete [of ?c b i "extraPackagesForDistro d" ?conn ctx2 ctx3 d])
                     (simp_all add: main_def NewCommand_def Let_def)
              qed
            qed
          qed
        qed
      qed
    qed
  qed
qed

lemma main_submissions_triggers:
  "submissions (snd (main sdk cfg key now)) = []
   \<or> (\<exists>c0 r0 rest. submissions (snd (main sdk cfg key now)) = (c0, r0) # rest
        \<and> resourceName c0 = ''update-system'' \<and> Triggers (args c0) = [now]
        \<and> opts c0 = []
        \<and> (\<forall>s\<in>set rest. Triggers (args (fst s)) = [Create (args (fst s))]))"
proof (cases rule: main_cases [of sdk cfg key now])
  case early
  then show ?thesis by simp
next
  case (update_refused c e)
  then show ?thesis by simp
next
  case (chain_refused c b i x conn err ctx2)
  from main_after_chain_triggers(1) [OF chain_refused(4)] chain_refused(1-3,5)
  show ?thesis by (auto simp: submissions_append)
next
  case (set_refused c b i x conn ctx2 err ctx3)
  from main_after_chain_triggers(2) [OF set_refused(4) set_refused(5)] set_refused(1-3,6)
  show ?thesis by (auto simp: submissions_append)
next
  case (complete c b i x conn ctx2 ctx3 d)
  from main_after_chain_triggers(2) [OF complete(4) complete(5)] complete(1-3,6)
  show ?thesis by (auto simp: submissions_append)
qed

section \<open>The errors of \<^verbatim>\<open>main\<close> in \<^verbatim>\<open>src/main.go\<close>, lines 93 to 173\<close>

text \<open>
  This version returns every error: the error of \<^verbatim>\<open>os.ReadFile\<close>, the error of
  \<^verbatim>\<open>installCmd\<close>, and the error of every submission that the SDK refuses, each wrapped by
  \<^verbatim>\<open>fmt.Errorf\<close> with \<^verbatim>\<open>%w\<close>.
\<close>

lemma main_key_error:
  assumes "cfg ''distribution'' = Some d" and "cfg ''sshUsername'' = Some u"
  shows "main sdk cfg (Inl e) now
     = (Return (Some (ErrorfW (''failed to read private key: '' @ Error e) e)), [])"
  using assms by (simp add: main_def)

lemma main_unsupported:
  assumes "d \<notin> {''fedora'', ''ubuntu'', ''debian''}"
    and "cfg ''distribution'' = Some d" and "cfg ''sshUsername'' = Some u"
  shows "main sdk cfg (Inr k) now
     = (Return (Some (ErrorfW (''failed to get install command: unsupported distribution: '' @ d)
                        (Errorf (''unsupported distribution: '' @ d)))), [])"
  using assms by (simp add: main_def installCmd_def)

lemma main_part0_unsupported:
  assumes "d \<notin> {''fedora'', ''ubuntu'', ''debian''}"
    and "cfg ''distribution'' = Some d" and "cfg ''sshUsername'' = Some u"
  shows "main_part0 sdk cfg (Inr k)
     = (Return (Some (ErrorfW (''failed to get install command: unsupported distribution: '' @ d)
                        (Errorf (''unsupported distribution: '' @ d)))), [])"
  using assms by (simp add: main_part0_def installCmd_part0_def)

lemma runOrderedCommands_accepted:
  assumes "runOrderedCommands sdk ctx a cs connection = (None, ctx')"
  shows "\<exists>subs. submissions ctx' = submissions ctx @ subs \<and> (\<forall>s\<in>set subs. \<exists>r. snd s = Inr r)"
proof -
  from assms obtain l where "orderedLoop sdk ctx a cs connection = (None, l, ctx')"
    by (auto simp: runOrderedCommands_def split: prod.splits)
  from orderedLoop_shape [OF this] obtain subs where
    "submissions ctx' = submissions ctx @ subs" "\<forall>i<length subs. \<exists>r. snd (subs ! i) = Inr r"
    by auto
  then show ?thesis by (intro exI [of _ subs]) (simp add: all_set_conv_all_nth)
qed

lemma runIndependentCommands_accepted:
  assumes "runIndependentCommands sdk ctx cs connection = (None, ctx')"
  shows "\<exists>subs. submissions ctx' = submissions ctx @ subs \<and> (\<forall>s\<in>set subs. \<exists>r. snd s = Inr r)"
proof -
  from runIndependentCommands_shape [OF assms] obtain subs where
    "submissions ctx' = submissions ctx @ subs" "\<forall>i<length subs. \<exists>r. snd (subs ! i) = Inr r"
    by auto
  then show ?thesis by (intro exI [of _ subs]) (simp add: all_set_conv_all_nth)
qed

lemma runOrderedCommands_refused:
  assumes run: "runOrderedCommands sdk ctx a cs connection = (err, ctx')"
    and subs: "submissions ctx' = submissions ctx @ subs"
    and f: "(c, Inl e) \<in> set subs"
  shows "\<exists>m. err = Some (ErrorfW m e)"
proof -
  from f obtain k where "k < length subs" "snd (subs ! k) = Inl e"
    by (auto simp: in_set_conv_nth)
  from runOrderedCommands_first_failure [OF run subs this] show ?thesis by blast
qed

lemma runIndependentCommands_refused:
  assumes run: "runIndependentCommands sdk ctx cs connection = (err, ctx')"
    and subs: "submissions ctx' = submissions ctx @ subs"
    and f: "(c, Inl e) \<in> set subs"
  shows "\<exists>m. err = Some (ErrorfW m e)"
proof -
  from f obtain k where "k < length subs" "snd (subs ! k) = Inl e"
    by (auto simp: in_set_conv_nth)
  from runIndependentCommands_stops [OF run subs this] show ?thesis by blast
qed

lemma main_refused_returned:
  assumes "(c, Inl e) \<in> set (submissions (snd (main sdk cfg key now)))"
  shows "\<exists>m. fst (main sdk cfg key now) = Return (Some (ErrorfW m e))"
proof (cases rule: main_cases [of sdk cfg key now])
  case early
  with assms show ?thesis by simp
next
  case (update_refused c0 e0)
  with assms show ?thesis by simp
next
  case (chain_refused c0 b i x conn err ctx2)
  from runOrderedCommands_triggers [OF chain_refused(4)] obtain subs where
    s: "submissions ctx2 = submissions [Call c0 (Inr b)] @ subs"
    by blast
  with assms chain_refused(5) have "(c, Inl e) \<in> set subs"
    by (simp add: submissions_append)
  from runOrderedCommands_refused [OF chain_refused(4) s this] chain_refused(6)
  show ?thesis by simp
next
  case (set_refused c0 b i x conn ctx2 err ctx3)
  from runOrderedCommands_accepted [OF set_refused(4)] obtain subs2 where
    s2: "submissions ctx2 = submissions [Call c0 (Inr b)] @ subs2"
    and a2: "\<forall>s\<in>set subs2. \<exists>r. snd s = Inr r"
    by blast
  from runIndependentCommands_triggers [OF set_refused(5)] obtain subs3 where
    s3: "submissions ctx3 = submissions ctx2 @ subs3"
    by blast
  from assms set_refused(6) s2 s3 a2 have "(c, Inl e) \<in> set subs3"
    by (auto simp: submissions_append)
  from runIndependentCommands_refused [OF set_refused(5) s3 this] set_refused(7)
  show ?thesis by simp
next
  case (complete c0 b i x conn ctx2 ctx3 d)
  from runOrderedCommands_accepted [OF complete(4)] obtain subs2 where
    s2: "submissions ctx2 = submissions [Call c0 (Inr b)] @ subs2"
    and a2: "\<forall>s\<in>set subs2. \<exists>r. snd s = Inr r"
    by blast
  from runIndependentCommands_accepted [OF complete(5)] obtain subs3 where
    s3: "submissions ctx3 = submissions ctx2 @ subs3"
    and a3: "\<forall>s\<in>set subs3. \<exists>r. snd s = Inr r"
    by blast
  from assms complete(6) s2 s3 a2 a3 show ?thesis
    by (auto simp: submissions_append)
qed

section \<open>The command table\<close>

text \<open>
  Claim C3. For each of the distributions \<^verbatim>\<open>fedora\<close>, \<^verbatim>\<open>ubuntu\<close> and \<^verbatim>\<open>debian\<close>,
  \<^verbatim>\<open>installCmd\<close> and \<^verbatim>\<open>updateCmd\<close> return the literal invocation of the package manager, and
  for every other string \<open>d\<close> both return the error \<^verbatim>\<open>unsupported distribution: d\<close>. This
  holds in the three versions; the other two return the install command without \<^verbatim>\<open>sudo\<close>
  and update Debian and Ubuntu through \<^verbatim>\<open>bash -c\<close>.
\<close>

theorem installCmd_updateCmd_table:
  \<open>installCmd ''fedora'' = Inr ''sudo dnf install -y''
   \<and> installCmd ''ubuntu'' = Inr ''sudo apt-get install -y''
   \<and> installCmd ''debian'' = Inr ''sudo apt-get install -y''
   \<and> updateCmd ''fedora'' = Inr ''sudo dnf update -y''
   \<and> updateCmd ''ubuntu'' = Inr ''sudo apt-get update && sudo apt-get dist-upgrade -y''
   \<and> updateCmd ''debian'' = Inr ''sudo apt-get update && sudo apt-get dist-upgrade -y''
   \<and> installCmd_part0 ''fedora'' = Inr ''dnf install -y''
   \<and> installCmd_part0 ''ubuntu'' = Inr ''apt-get install -y''
   \<and> installCmd_part0 ''debian'' = Inr ''apt-get install -y''
   \<and> updateCmd_part0 ''fedora'' = Inr ''sudo dnf update -y''
   \<and> updateCmd_part0 ''ubuntu'' = Inr ''sudo bash -c "apt-get update && apt-get dist-upgrade -y"''
   \<and> updateCmd_part0 ''debian'' = Inr ''sudo bash -c "apt-get update && apt-get dist-upgrade -y"''
   \<and> installCmd_doc2 = installCmd_part0
   \<and> updateCmd_doc2 = updateCmd_part0
   \<and> (d \<notin> {''fedora'', ''ubuntu'', ''debian''} \<longrightarrow>
         installCmd d = Inl (Errorf (''unsupported distribution: '' @ d))
       \<and> updateCmd d = Inl (Errorf (''unsupported distribution: '' @ d))
       \<and> installCmd_part0 d = Inl (Errorf (''unsupported distribution: '' @ d))
       \<and> updateCmd_part0 d = Inl (Errorf (''unsupported distribution: '' @ d))
       \<and> installCmd_doc2 d = Inl (Errorf (''unsupported distribution: '' @ d))
       \<and> updateCmd_doc2 d = Inl (Errorf (''unsupported distribution: '' @ d)))\<close>
proof -
  have eqs: "installCmd_doc2 = installCmd_part0" "updateCmd_doc2 = updateCmd_part0"
    by (rule ext, simp add: installCmd_doc2_def installCmd_part0_def,
        rule ext, simp add: updateCmd_doc2_def updateCmd_part0_def)
  show ?thesis
    unfolding eqs
    by (simp add: installCmd_def updateCmd_def installCmd_part0_def updateCmd_part0_def)
qed

theorem installCmd_updateCmd_table_witness:
  "''arch'' \<notin> {''fedora'', ''ubuntu'', ''debian''}
   \<and> installCmd ''arch'' = Inl (Errorf ''unsupported distribution: arch'')
   \<and> updateCmd ''arch'' = Inl (Errorf ''unsupported distribution: arch'')
   \<and> installCmd_part0 ''arch'' = Inl (Errorf ''unsupported distribution: arch'')
   \<and> updateCmd_doc2 ''arch'' = Inl (Errorf ''unsupported distribution: arch'')"
  using installCmd_updateCmd_table [of "''arch''"] by simp

section \<open>The chain executor\<close>

text \<open>
  Claim C1. \<^verbatim>\<open>runOrderedCommands\<close> submits the commands in list order: the submission at
  position \<open>i\<close> carries the name and the text of the command at position \<open>i\<close> and declares
  one dependency, on \<^verbatim>\<open>update_cmd\<close> (the anchor) for \<open>i = 0\<close> and on the resource that
  the SDK returned for the submission at position \<open>i - 1\<close> otherwise. When the SDK accepts
  every submission there are as many submissions as commands, and no error is returned.
\<close>

theorem runOrderedCommands_chain:
  assumes "runOrderedCommands sdk ctx update_cmd commands connection = (err, ctx')"
  shows "\<exists>subs. submissions ctx' = submissions ctx @ subs
     \<and> length subs \<le> length commands
     \<and> (\<forall>i<length subs.
           resourceName (fst (subs ! i)) = name (commands ! i)
         \<and> args (fst (subs ! i)) =
             \<lparr>Connection = connection, Create = cmd (commands ! i),
              Triggers = [cmd (commands ! i)]\<rparr>
         \<and> (i = 0 \<longrightarrow> opts (fst (subs ! i)) = [DependsOn [update_cmd]])
         \<and> (\<forall>j. i = Suc j \<longrightarrow>
               (\<exists>r. snd (subs ! j) = Inr r \<and> opts (fst (subs ! i)) = [DependsOn [r]])))
     \<and> ((\<forall>i<length subs. \<exists>r. snd (subs ! i) = Inr r)
          \<longrightarrow> length subs = length commands \<and> err = None)"
proof -
  from assms obtain l where "orderedLoop sdk ctx update_cmd commands connection = (err, l, ctx')"
    by (auto simp: runOrderedCommands_def split: prod.splits)
  from orderedLoop_shape [OF this] obtain subs where
    s: "submissions ctx' = submissions ctx @ subs"
    and n: "length subs \<le> length commands"
    and m: "\<forall>i<length subs.
           resourceName (fst (subs ! i)) = name (commands ! i)
         \<and> args (fst (subs ! i)) =
             \<lparr>Connection = connection, Create = cmd (commands ! i),
              Triggers = [cmd (commands ! i)]\<rparr>
         \<and> (i = 0 \<longrightarrow> opts (fst (subs ! i)) = [DependsOn [update_cmd]])
         \<and> (\<forall>j. i = Suc j \<longrightarrow>
               (\<exists>r. snd (subs ! j) = Inr r \<and> opts (fst (subs ! i)) = [DependsOn [r]]))"
    and e: "(case err of
           None \<Rightarrow> length subs = length commands \<and> (\<forall>i<length subs. \<exists>r. snd (subs ! i) = Inr r)
         | Some e \<Rightarrow> subs \<noteq> [] \<and> (\<exists>e0. snd (last subs) = Inl e0
               \<and> e = ErrorfW (''failed to run command '' @ [CHR 0x27]
                     @ cmd (commands ! (length subs - 1)) @ [CHR 0x27] @ '': '' @ Error e0) e0))"
    by blast
  have "(\<forall>i<length subs. \<exists>r. snd (subs ! i) = Inr r)
          \<longrightarrow> length subs = length commands \<and> err = None"
  proof (intro impI)
    assume a: "\<forall>i<length subs. \<exists>r. snd (subs ! i) = Inr r"
    show "length subs = length commands \<and> err = None"
    proof (cases err)
      case None
      with e show ?thesis by simp
    next
      case (Some x)
      with e obtain e0 where "subs \<noteq> []" and "snd (last subs) = Inl e0" by auto
      with all_accepted_last [OF a] show ?thesis by blast
    qed
  qed
  with s n m show ?thesis by blast
qed

text \<open>Two commands after the anchor 7, with an SDK that numbers the resources from 0.\<close>

theorem runOrderedCommands_chain_witness:
  "fst (runOrderedCommands (\<lambda>ctx c. Inr (length (submissions ctx))) [] (7::nat)
      [\<lparr>name = ''a'', cmd = ''x''\<rparr>, \<lparr>name = ''b'', cmd = ''y''\<rparr>]
      \<lparr>Host = ''h'', Port = 22, User = ''u'', PrivateKey = ''k''\<rparr>) = None
   \<and> map (\<lambda>(c, r). (resourceName c, opts c, r))
       (submissions (snd (runOrderedCommands (\<lambda>ctx c. Inr (length (submissions ctx))) [] (7::nat)
          [\<lparr>name = ''a'', cmd = ''x''\<rparr>, \<lparr>name = ''b'', cmd = ''y''\<rparr>]
          \<lparr>Host = ''h'', Port = 22, User = ''u'', PrivateKey = ''k''\<rparr>)))
     = [(''a'', [DependsOn [7]], Inr 0), (''b'', [DependsOn [0]], Inr 1)]"
  using runOrderedCommands_chain [of "\<lambda>ctx c. Inr (length (submissions ctx))" "[]" "7::nat"
      "[\<lparr>name = ''a'', cmd = ''x''\<rparr>, \<lparr>name = ''b'', cmd = ''y''\<rparr>]"
      "\<lparr>Host = ''h'', Port = 22, User = ''u'', PrivateKey = ''k''\<rparr>" None
      "snd (runOrderedCommands (\<lambda>ctx c. Inr (length (submissions ctx))) [] (7::nat)
          [\<lparr>name = ''a'', cmd = ''x''\<rparr>, \<lparr>name = ''b'', cmd = ''y''\<rparr>]
          \<lparr>Host = ''h'', Port = 22, User = ''u'', PrivateKey = ''k''\<rparr>)"]
  by (simp add: runOrderedCommands_def NewCommand_def Let_def)

section \<open>The independent-set executor\<close>

text \<open>
  Claim C5. \<^verbatim>\<open>runIndependentCommands\<close> submits the commands in list order and gives no
  option to any of them: no submission declares a dependency, on a submission of the set or
  on anything else. When the SDK accepts every submission, all the commands of the list are
  submitted and no error is returned. The inline loop of \<^verbatim>\<open>part_000\<close> (lines 124 to 135)
  does the same.
\<close>

theorem runIndependentCommands_no_dependencies:
  "(runIndependentCommands sdk ctx commands connection = (err, ctx') \<longrightarrow>
     (\<exists>subs. submissions ctx' = submissions ctx @ subs
        \<and> length subs \<le> length commands
        \<and> (\<forall>i<length subs.
              fst (subs ! i) =
                \<lparr>resourceName = name (commands ! i),
                 args = \<lparr>Connection = connection, Create = cmd (commands ! i),
                         Triggers = [cmd (commands ! i)]\<rparr>,
                 opts = []\<rparr>)
        \<and> ((\<forall>i<length subs. \<exists>r. snd (subs ! i) = Inr r)
             \<longrightarrow> length subs = length commands \<and> err = None)))
   \<and> (independentLoop_part0 sdk ctx commands connection = (ret, ctx'') \<longrightarrow>
     (\<exists>subs. submissions ctx'' = submissions ctx @ subs
        \<and> length subs \<le> length commands
        \<and> (\<forall>i<length subs.
              fst (subs ! i) =
                \<lparr>resourceName = name (commands ! i),
                 args = \<lparr>Connection = connection, Create = cmd (commands ! i),
                         Triggers = [cmd (commands ! i)]\<rparr>,
                 opts = []\<rparr>)
        \<and> ((\<forall>i<length subs. \<exists>r. snd (subs ! i) = Inr r)
             \<longrightarrow> length subs = length commands \<and> ret = None)))"
proof (intro conjI impI)
  assume "runIndependentCommands sdk ctx commands connection = (err, ctx')"
  from runIndependentCommands_shape [OF this] obtain subs where
    s: "submissions ctx' = submissions ctx @ subs"
    and n: "length subs \<le> length commands"
    and m: "\<forall>i<length subs.
              fst (subs ! i) =
                \<lparr>resourceName = name (commands ! i),
                 args = \<lparr>Connection = connection, Create = cmd (commands ! i),
                         Triggers = [cmd (commands ! i)]\<rparr>,
                 opts = []\<rparr>"
    and e: "(case err of
           None \<Rightarrow> length subs = length commands
                 \<and> (\<forall>i<length subs. \<exists>r. snd (subs ! i) = Inr r)
         | Some e \<Rightarrow> subs \<noteq> [] \<and> (\<exists>e0. snd (last subs) = Inl e0
               \<and> e = ErrorfW (''failed to run command '' @ [CHR 0x27]
                     @ cmd (commands ! (length subs - 1)) @ [CHR 0x27] @ '': '' @ Error e0) e0))"
    by blast
  have "(\<forall>i<length subs. \<exists>r. snd (subs ! i) = Inr r)
          \<longrightarrow> length subs = length commands \<and> err = None"
  proof (intro impI)
    assume a: "\<forall>i<length subs. \<exists>r. snd (subs ! i) = Inr r"
    show "length subs = length commands \<and> err = None"
    proof (cases err)
      case None
      with e show ?thesis by simp
    next
      case (Some x)
      with e obtain e0 where "subs \<noteq> []" and "snd (last subs) = Inl e0" by auto
      with all_accepted_last [OF a] show ?thesis by blast
    qed
  qed
  with s n m show "\<exists>subs. submissions ctx' = submissions ctx @ subs
        \<and> length subs \<le> length commands
        \<and> (\<forall>i<length subs.
              fst (subs ! i) =
                \<lparr>resourceName = name (commands ! i),
                 args = \<lparr>Connection = connection, Create = cmd (commands ! i),
                         Triggers = [cmd (commands ! i)]\<rparr>,
                 opts = []\<rparr>)
        \<and> ((\<forall>i<length subs. \<exists>r. snd (subs ! i) = Inr r)
             \<longrightarrow> length subs = length commands \<and> err = None)"
    by blast
next
  assume "independentLoop_part0 sdk ctx commands connection = (ret, ctx'')"
  from independentLoop_part0_shape [OF this] obtain subs where
    s: "submissions ctx'' = submissions ctx @ subs"
    and n: "length subs \<le> length commands"
    and m: "\<forall>i<length subs.
              fst (subs ! i) =
                \<lparr>resourceName = name (commands ! i),
                 args = \<lparr>Connection = connection, Create = cmd (commands ! i),
                         Triggers = [cmd (commands ! i)]\<rparr>,
                 opts = []\<rparr>"
    and e: "(case ret of
           None \<Rightarrow> length subs = length commands
                 \<and> (\<forall>i<length subs. \<exists>r. snd (subs ! i) = Inr r)
         | Some v \<Rightarrow> subs \<noteq> [] \<and> (\<exists>e0. snd (last subs) = Inl e0
               \<and> v = Some (ErrorfW (''failed to run command ''
                     @ name (commands ! (length subs - 1)) @ '': '' @ Error e0) e0)))"
    by blast
  have "(\<forall>i<length subs. \<exists>r. snd (subs ! i) = Inr r)
          \<longrightarrow> length subs = length commands \<and> ret = None"
  proof (intro impI)
    assume a: "\<forall>i<length subs. \<exists>r. snd (subs ! i) = Inr r"
    show "length subs = length commands \<and> ret = None"
    proof (cases ret)
      case None
      with e show ?thesis by simp
    next
      case (Some x)
      with e obtain e0 where "subs \<noteq> []" and "snd (last subs) = Inl e0" by auto
      with all_accepted_last [OF a] show ?thesis by blast
    qed
  qed
  with s n m show "\<exists>subs. submissions ctx'' = submissions ctx @ subs
        \<and> length subs \<le> length commands
        \<and> (\<forall>i<length subs.
              fst (subs ! i) =
                \<lparr>resourceName = name (commands ! i),
                 args = \<lparr>Connection = connection, Create = cmd (commands ! i),
                         Triggers = [cmd (commands ! i)]\<rparr>,
                 opts = []\<rparr>)
        \<and> ((\<forall>i<length subs. \<exists>r. snd (subs ! i) = Inr r)
             \<longrightarrow> length subs = length commands \<and> ret = None)"
    by blast
qed

text \<open>Two commands, with an SDK that numbers the resources from 0.\<close>

theorem runIndependentCommands_no_dependencies_witness:
  "fst (runIndependentCommands (\<lambda>ctx c. Inr (length (submissions ctx))) ([] :: nat ctx)
      [\<lparr>name = ''a'', cmd = ''x''\<rparr>, \<lparr>name = ''b'', cmd = ''y''\<rparr>]
      \<lparr>Host = ''h'', Port = 22, User = ''u'', PrivateKey = ''k''\<rparr>) = None
   \<and> map (\<lambda>(c, r). (resourceName c, opts c, r))
       (submissions (snd (runIndependentCommands (\<lambda>ctx c. Inr (length (submissions ctx))) []
          [\<lparr>name = ''a'', cmd = ''x''\<rparr>, \<lparr>name = ''b'', cmd = ''y''\<rparr>]
          \<lparr>Host = ''h'', Port = 22, User = ''u'', PrivateKey = ''k''\<rparr>)))
     = [(''a'', [], Inr 0), (''b'', [], Inr (1::nat))]
   \<and> fst (independentLoop_part0 (\<lambda>ctx c. Inr (length (submissions ctx))) ([] :: nat ctx)
      [\<lparr>name = ''a'', cmd = ''x''\<rparr>, \<lparr>name = ''b'', cmd = ''y''\<rparr>]
      \<lparr>Host = ''h'', Port = 22, User = ''u'', PrivateKey = ''k''\<rparr>) = None
   \<and> map (\<lambda>(c, r). (resourceName c, opts c, r))
       (submissions (snd (independentLoop_part0 (\<lambda>ctx c. Inr (length (submissions ctx))) []
          [\<lparr>name = ''a'', cmd = ''x''\<rparr>, \<lparr>name = ''b'', cmd = ''y''\<rparr>]
          \<lparr>Host = ''h'', Port = 22, User = ''u'', PrivateKey = ''k''\<rparr>)))
     = [(''a'', [], Inr 0), (''b'', [], Inr (1::nat))]"
  using runIndependentCommands_no_dependencies
    [of "\<lambda>ctx c. Inr (length (submissions ctx))" "[]"
      "[\<lparr>name = ''a'', cmd = ''x''\<rparr>, \<lparr>name = ''b'', cmd = ''y''\<rparr>]"
      "\<lparr>Host = ''h'', Port = 22, User = ''u'', PrivateKey = ''k''\<rparr>" None
      "snd (runIndependentCommands (\<lambda>ctx c. Inr (length (submissions ctx))) ([] :: nat ctx)
          [\<lparr>name = ''a'', cmd = ''x''\<rparr>, \<lparr>name = ''b'', cmd = ''y''\<rparr>]
          \<lparr>Host = ''h'', Port = 22, User = ''u'', PrivateKey = ''k''\<rparr>)"
      None
      "snd (independentLoop_part0 (\<lambda>ctx c. Inr (length (submissions ctx))) ([] :: nat ctx)
          [\<lparr>name = ''a'', cmd = ''x''\<rparr>, \<lparr>name = ''b'', cmd = ''y''\<rparr>]
          \<lparr>Host = ''h'', Port = 22, User = ''u'', PrivateKey = ''k''\<rparr>)"]
  by (simp add: NewCommand_def Let_def)

section \<open>The empty list\<close>

text \<open>
  Claim C10. On the empty list of commands both executors return \<^verbatim>\<open>nil\<close> and leave the
  context as it was: nothing is logged and nothing is submitted. The loop of
  \<^verbatim>\<open>runOrderedCommands\<close> ends with \<^verbatim>\<open>lastResource\<close> equal to the anchor it started from.
\<close>

theorem empty_command_list:
  "runIndependentCommands sdk ctx [] connection = (None, ctx)
   \<and> runOrderedCommands sdk ctx update_cmd [] connection = (None, ctx)
   \<and> orderedLoop sdk ctx update_cmd [] connection = (None, update_cmd, ctx)"
  by (simp add: runOrderedCommands_def)

section \<open>A refused submission in the independent set\<close>

text \<open>
  Claim C7. When the SDK refuses the submission at position \<open>k\<close> of the independent set, that
  submission is the last one of the executor (no later command of the set is submitted), it
  is the command at position \<open>k\<close> of the list, and the executor returns the error of the SDK
  wrapped by \<^verbatim>\<open>fmt.Errorf\<close> with \<^verbatim>\<open>%w\<close>: \<^verbatim>\<open>runIndependentCommands\<close> puts the text of the
  command into the message, the inline loop of \<^verbatim>\<open>part_000\<close> (lines 132 to 134) its name.
\<close>

theorem runIndependentCommands_first_failure:
  "(runIndependentCommands sdk ctx commands connection = (err, ctx')
      \<and> submissions ctx' = submissions ctx @ subs \<and> k < length subs \<and> snd (subs ! k) = Inl e
     \<longrightarrow> length subs = Suc k \<and> k < length commands
        \<and> resourceName (fst (subs ! k)) = name (commands ! k)
        \<and> err = Some (ErrorfW (''failed to run command '' @ [CHR 0x27] @ cmd (commands ! k)
                         @ [CHR 0x27] @ '': '' @ Error e) e))
   \<and> (independentLoop_part0 sdk ctx commands connection = (ret, ctx'')
      \<and> submissions ctx'' = submissions ctx @ subs' \<and> k' < length subs'
      \<and> snd (subs' ! k') = Inl e'
     \<longrightarrow> length subs' = Suc k' \<and> k' < length commands
        \<and> resourceName (fst (subs' ! k')) = name (commands ! k')
        \<and> ret = Some (Some (ErrorfW (''failed to run command '' @ name (commands ! k')
                         @ '': '' @ Error e') e')))"
proof (rule conjI)
  show "runIndependentCommands sdk ctx commands connection = (err, ctx')
      \<and> submissions ctx' = submissions ctx @ subs \<and> k < length subs \<and> snd (subs ! k) = Inl e
     \<longrightarrow> length subs = Suc k \<and> k < length commands
        \<and> resourceName (fst (subs ! k)) = name (commands ! k)
        \<and> err = Some (ErrorfW (''failed to run command '' @ [CHR 0x27] @ cmd (commands ! k)
                         @ [CHR 0x27] @ '': '' @ Error e) e)"
    using runIndependentCommands_stops [of sdk ctx commands connection err ctx' subs k e]
    by blast
  show "independentLoop_part0 sdk ctx commands connection = (ret, ctx'')
      \<and> submissions ctx'' = submissions ctx @ subs' \<and> k' < length subs'
      \<and> snd (subs' ! k') = Inl e'
     \<longrightarrow> length subs' = Suc k' \<and> k' < length commands
        \<and> resourceName (fst (subs' ! k')) = name (commands ! k')
        \<and> ret = Some (Some (ErrorfW (''failed to run command '' @ name (commands ! k')
                         @ '': '' @ Error e') e'))"
    using independentLoop_part0_stops [of sdk ctx commands connection ret ctx'' subs' k' e']
    by blast
qed

text \<open>Three commands; the SDK refuses the one named \<open>b\<close>.\<close>

theorem runIndependentCommands_first_failure_witness:
  "runIndependentCommands
      (\<lambda>ctx c. if resourceName c = ''b'' then Inl (External ''refused'')
                else Inr (length (submissions ctx))) ([] :: nat ctx)
      [\<lparr>name = ''a'', cmd = ''x''\<rparr>, \<lparr>name = ''b'', cmd = ''y''\<rparr>, \<lparr>name = ''c'', cmd = ''z''\<rparr>]
      \<lparr>Host = ''h'', Port = 22, User = ''u'', PrivateKey = ''k''\<rparr>
    = (Some (ErrorfW (''failed to run command '' @ [CHR 0x27] @ ''y'' @ [CHR 0x27]
                      @ '': refused'') (External ''refused'')),
       [LogInfo (''a: '' @ [CHR 0x27] @ ''x'' @ [CHR 0x27]),
        Call \<lparr>resourceName = ''a'',
              args = \<lparr>Connection = \<lparr>Host = ''h'', Port = 22, User = ''u'', PrivateKey = ''k''\<rparr>,
                      Create = ''x'', Triggers = [''x'']\<rparr>, opts = []\<rparr> (Inr 0),
        LogInfo (''b: '' @ [CHR 0x27] @ ''y'' @ [CHR 0x27]),
        Call \<lparr>resourceName = ''b'',
              args = \<lparr>Connection = \<lparr>Host = ''h'', Port = 22, User = ''u'', PrivateKey = ''k''\<rparr>,
                      Create = ''y'', Triggers = [''y'']\<rparr>, opts = []\<rparr>
             (Inl (External ''refused''))])
   \<and> independentLoop_part0
      (\<lambda>ctx c. if resourceName c = ''b'' then Inl (External ''refused'')
                else Inr (length (submissions ctx))) ([] :: nat ctx)
      [\<lparr>name = ''a'', cmd = ''x''\<rparr>, \<lparr>name = ''b'', cmd = ''y''\<rparr>, \<lparr>name = ''c'', cmd = ''z''\<rparr>]
      \<lparr>Host = ''h'', Port = 22, User = ''u'', PrivateKey = ''k''\<rparr>
    = (Some (Some (ErrorfW ''failed to run command b: refused'' (External ''refused''))),
       [LogInfo (''Running command: '' @ [CHR 0x27] @ ''x'' @ [CHR 0x27]),
        Call \<lparr>resourceName = ''a'',
              args = \<lparr>Connection = \<lparr>Host = ''h'', Port = 22, User = ''u'', PrivateKey = ''k''\<rparr>,
                      Create = ''x'', Triggers = [''x'']\<rparr>, opts = []\<rparr> (Inr 0),
        LogInfo (''Running command: '' @ [CHR 0x27] @ ''y'' @ [CHR 0x27]),
        Call \<lparr>resourceName = ''b'',
              args = \<lparr>Connection = \<lparr>Host = ''h'', Port = 22, User = ''u'', PrivateKey = ''k''\<rparr>,
                      Create = ''y'', Triggers = [''y'']\<rparr>, opts = []\<rparr>
             (Inl (External ''refused''))])"
proof -
  let ?sdk = "\<lambda>(ctx :: nat ctx) (c :: nat call).
      if resourceName c = ''b'' then Inl (External ''refused'')
      else (Inr (length (submissions ctx)) :: error + nat)"
  let ?cs = "[\<lparr>name = ''a'', cmd = ''x''\<rparr>, \<lparr>name = ''b'', cmd = ''y''\<rparr>, \<lparr>name = ''c'', cmd = ''z''\<rparr>]"
  let ?conn = "\<lparr>Host = ''h'', Port = 22, User = ''u'', PrivateKey = ''k''\<rparr>"
  let ?p = "runIndependentCommands ?sdk [] ?cs ?conn"
  let ?q = "independentLoop_part0 ?sdk [] ?cs ?conn"
  have k: "(1::nat) < length (submissions (snd ?p))" "snd (submissions (snd ?p) ! 1) = Inl (External ''refused'')"
    "(1::nat) < length (submissions (snd ?q))" "snd (submissions (snd ?q) ! 1) = Inl (External ''refused'')"
    by (simp_all add: NewCommand_def Let_def)
  from runIndependentCommands_first_failure
    [of ?sdk "[]" ?cs ?conn "fst ?p" "snd ?p" "submissions (snd ?p)" 1 "External ''refused''"
        "fst ?q" "snd ?q" "submissions (snd ?q)" 1 "External ''refused''"] k
  have "fst ?p = Some (ErrorfW (''failed to run command '' @ [CHR 0x27] @ cmd (?cs ! 1)
                         @ [CHR 0x27] @ '': '' @ Error (External ''refused'')) (External ''refused''))"
    and "fst ?q = Some (Some (ErrorfW (''failed to run command '' @ name (?cs ! 1)
                         @ '': '' @ Error (External ''refused'')) (External ''refused'')))"
    by simp_all
  then show ?thesis
    by (simp add: NewCommand_def Let_def)
qed

section \<open>Names within a run\<close>

text \<open>
  Claim C8. In every run of \<^verbatim>\<open>main\<close>, for every configuration, key file and behaviour of
  the SDK, the names of the submitted commands are pairwise distinct: the command
  \<^verbatim>\<open>update-system\<close>, the ordered chain and the independent set never share a name. This
  holds in the three versions of \<^verbatim>\<open>main\<close>.
\<close>

theorem submitted_names_distinct:
  "distinct (map (resourceName \<circ> fst) (submissions (snd (main sdk cfg key now))))
   \<and> distinct (map (resourceName \<circ> fst) (submissions (snd (main_part0 sdk cfg key))))
   \<and> distinct (map (resourceName \<circ> fst) (submissions (snd (main_doc2 sdk cfg key))))"
  by (simp only: main_names_distinct main_part0_names_distinct main_doc2_names_distinct simp_thms)

text \<open>A run on Fedora with an SDK that accepts every command.\<close>

theorem submitted_names_distinct_witness:
  "distinct (map (resourceName \<circ> fst) (submissions (snd
      (main (\<lambda>ctx c. Inr (length (submissions ctx)) :: error + nat)
         [''distribution'' \<mapsto> ''fedora'', ''sshUsername'' \<mapsto> ''ismail'']
         (Inr ''KEY'') ''2025-01-01T00:00:00Z''))))
   \<and> distinct (map (resourceName \<circ> fst) (submissions (snd
      (main_part0 (\<lambda>ctx c. Inr (length (submissions ctx)) :: error + nat)
         [''distribution'' \<mapsto> ''fedora'', ''sshUsername'' \<mapsto> ''ismail'']
         (Inr ''KEY'')))))
   \<and> distinct (map (resourceName \<circ> fst) (submissions (snd
      (main_doc2 (\<lambda>ctx c. Inr (length (submissions ctx)) :: error + nat)
         [''distribution'' \<mapsto> ''fedora'', ''sshUsername'' \<mapsto> ''ismail'']
         (Inr ''KEY'')))))"
  by (rule submitted_names_distinct)

section \<open>Triggers\<close>

text \<open>
  Claim C9. Every command submitted by \<^verbatim>\<open>runOrderedCommands\<close> and by
  \<^verbatim>\<open>runIndependentCommands\<close> has one trigger, its own shell command string (the value of
  \<^verbatim>\<open>Create\<close>). In a run of \<^verbatim>\<open>main\<close> the first submission is \<^verbatim>\<open>update-system\<close> and its only
  trigger is \<open>now\<close>, the formatted current time; every later submission has its own command
  string as its only trigger. What a trigger causes (a new run of the command when its value
  changes) is the SDK's part.
\<close>

theorem command_triggers:
  "(runOrderedCommands sdk ctx a cs connection = (err, ctx') \<longrightarrow>
      (\<exists>subs. submissions ctx' = submissions ctx @ subs
         \<and> (\<forall>i<length subs.
               Create (args (fst (subs ! i))) = cmd (cs ! i)
             \<and> Triggers (args (fst (subs ! i))) = [cmd (cs ! i)])))
   \<and> (runIndependentCommands sdk ctx cs connection = (err', ctx'') \<longrightarrow>
      (\<exists>subs. submissions ctx'' = submissions ctx @ subs
         \<and> (\<forall>i<length subs.
               Create (args (fst (subs ! i))) = cmd (cs ! i)
             \<and> Triggers (args (fst (subs ! i))) = [cmd (cs ! i)])))
   \<and> (\<forall>i<length (submissions (snd (main sdk cfg key now))).
        (i = 0 \<longrightarrow>
           resourceName (fst (submissions (snd (main sdk cfg key now)) ! i)) = ''update-system''
         \<and> Triggers (args (fst (submissions (snd (main sdk cfg key now)) ! i))) = [now])
      \<and> (0 < i \<longrightarrow>
           Triggers (args (fst (submissions (snd (main sdk cfg key now)) ! i)))
             = [Create (args (fst (submissions (snd (main sdk cfg key now)) ! i)))]))"
proof (intro conjI)
  show "runOrderedCommands sdk ctx a cs connection = (err, ctx') \<longrightarrow>
      (\<exists>subs. submissions ctx' = submissions ctx @ subs
         \<and> (\<forall>i<length subs.
               Create (args (fst (subs ! i))) = cmd (cs ! i)
             \<and> Triggers (args (fst (subs ! i))) = [cmd (cs ! i)]))"
  proof
    assume "runOrderedCommands sdk ctx a cs connection = (err, ctx')"
    from runOrderedCommands_triggers [OF this] obtain subs where
      "submissions ctx' = submissions ctx @ subs"
      "\<forall>i<length subs. args (fst (subs ! i)) =
             \<lparr>Connection = connection, Create = cmd (cs ! i), Triggers = [cmd (cs ! i)]\<rparr>"
      by blast
    then show "\<exists>subs. submissions ctx' = submissions ctx @ subs
         \<and> (\<forall>i<length subs.
               Create (args (fst (subs ! i))) = cmd (cs ! i)
             \<and> Triggers (args (fst (subs ! i))) = [cmd (cs ! i)])"
      by (intro exI [of _ subs]) simp
  qed
  show "runIndependentCommands sdk ctx cs connection = (err', ctx'') \<longrightarrow>
      (\<exists>subs. submissions ctx'' = submissions ctx @ subs
         \<and> (\<forall>i<length subs.
               Create (args (fst (subs ! i))) = cmd (cs ! i)
             \<and> Triggers (args (fst (subs ! i))) = [cmd (cs ! i)]))"
  proof
    assume "runIndependentCommands sdk ctx cs connection = (err', ctx'')"
    from runIndependentCommands_triggers [OF this] obtain subs where
      "submissions ctx'' = submissions ctx @ subs"
      "\<forall>i<length subs. args (fst (subs ! i)) =
             \<lparr>Connection = connection, Create = cmd (cs ! i), Triggers = [cmd (cs ! i)]\<rparr>"
      by blast
    then show "\<exists>subs. submissions ctx'' = submissions ctx @ subs
         \<and> (\<forall>i<length subs.
               Create (args (fst (subs ! i))) = cmd (cs ! i)
             \<and> Triggers (args (fst (subs ! i))) = [cmd (cs ! i)])"
      by (intro exI [of _ subs]) simp
  qed
  let ?S = "submissions (snd (main sdk cfg key now))"
  show "\<forall>i<length ?S.
        (i = 0 \<longrightarrow> resourceName (fst (?S ! i)) = ''update-system''
                  \<and> Triggers (args (fst (?S ! i))) = [now])
      \<and> (0 < i \<longrightarrow> Triggers (args (fst (?S ! i))) = [Create (args (fst (?S ! i)))])"
  proof (intro allI impI)
    fix i assume i: "i < length ?S"
    with main_submissions_triggers [of sdk cfg key now] obtain c0 r0 rest where
      S: "?S = (c0, r0) # rest"
      and c0: "resourceName c0 = ''update-system''" "Triggers (args c0) = [now]"
      and rest: "\<forall>s\<in>set rest. Triggers (args (fst s)) = [Create (args (fst s))]"
      by auto
    show "(i = 0 \<longrightarrow> resourceName (fst (?S ! i)) = ''update-system''
                  \<and> Triggers (args (fst (?S ! i))) = [now])
      \<and> (0 < i \<longrightarrow> Triggers (args (fst (?S ! i))) = [Create (args (fst (?S ! i)))])"
    proof (cases i)
      case 0
      with S c0 show ?thesis by simp
    next
      case (Suc j)
      with i S have "rest ! j \<in> set rest" by simp
      with rest Suc S show ?thesis by simp
    qed
  qed
qed

text \<open>A run on Fedora where the SDK accepts \<^verbatim>\<open>update-system\<close> and refuses the next command.\<close>

theorem command_triggers_witness:
  "length (submissions (snd (main
      (\<lambda>ctx c. if resourceName c = ''update-system'' then Inr (0::nat)
                else Inl (External ''refused''))
      [''distribution'' \<mapsto> ''fedora'', ''sshUsername'' \<mapsto> ''ismail'']
      (Inr ''KEY'') ''2025-01-01T00:00:00Z''))) = 2
   \<and> Triggers (args (fst (submissions (snd (main
      (\<lambda>ctx c. if resourceName c = ''update-system'' then Inr (0::nat)
                else Inl (External ''refused''))
      [''distribution'' \<mapsto> ''fedora'', ''sshUsername'' \<mapsto> ''ismail'']
      (Inr ''KEY'') ''2025-01-01T00:00:00Z'')) ! 0))) = [''2025-01-01T00:00:00Z'']
   \<and> Triggers (args (fst (submissions (snd (main
      (\<lambda>ctx c. if resourceName c = ''update-system'' then Inr (0::nat)
                else Inl (External ''refused''))
      [''distribution'' \<mapsto> ''fedora'', ''sshUsername'' \<mapsto> ''ismail'']
      (Inr ''KEY'') ''2025-01-01T00:00:00Z'')) ! 1)))
     = [Create (args (fst (submissions (snd (main
      (\<lambda>ctx c. if resourceName c = ''update-system'' then Inr (0::nat)
                else Inl (External ''refused''))
      [''distribution'' \<mapsto> ''fedora'', ''sshUsername'' \<mapsto> ''ismail'']
      (Inr ''KEY'') ''2025-01-01T00:00:00Z'')) ! 1)))]"
proof -
  let ?sdk = "\<lambda>(ctx :: nat ctx) (c :: nat call).
      if resourceName c = ''update-system'' then (Inr 0 :: error + nat)
      else Inl (External ''refused'')"
  let ?cfg = "[''distribution'' \<mapsto> ''fedora'', ''sshUsername'' \<mapsto> ''ismail'']"
  let ?S = "submissions (snd (main ?sdk ?cfg (Inr ''KEY'') ''2025-01-01T00:00:00Z''))"
  have len: "length ?S = 2"
    by (simp add: main_def installCmd_def updateCmd_def runOrderedCommands_def
        setup_commands_def NewCommand_def Let_def)
  from command_triggers [of ?sdk _ _ _ _ _ _ _ _ ?cfg "Inr ''KEY''" "''2025-01-01T00:00:00Z''"]
  have a: "\<forall>i<length ?S.
        (i = 0 \<longrightarrow> resourceName (fst (?S ! i)) = ''update-system''
                  \<and> Triggers (args (fst (?S ! i))) = [''2025-01-01T00:00:00Z''])
      \<and> (0 < i \<longrightarrow> Triggers (args (fst (?S ! i))) = [Create (args (fst (?S ! i)))])"
    by blast
  from spec [OF a, of 0] len have "Triggers (args (fst (?S ! 0))) = [''2025-01-01T00:00:00Z'']"
    by simp
  moreover from spec [OF a, of 1] len
  have "Triggers (args (fst (?S ! 1))) = [Create (args (fst (?S ! 1)))]"
    by simp
  ultimately show ?thesis using len by blast
qed

section \<open>Unsupported distributions\<close>

text \<open>
  Claim C4, as amended. For every distribution identifier outside \<^verbatim>\<open>fedora\<close>, \<^verbatim>\<open>ubuntu\<close>,
  \<^verbatim>\<open>debian\<close>, the builders \<^verbatim>\<open>installCmd\<close> and \<^verbatim>\<open>updateCmd\<close> fail with the error
  \<^verbatim>\<open>unsupported distribution\<close>, and the lookup \<^verbatim>\<open>extraPackagesForDistro\<close> does not fail:
  its type has no error, and it returns the empty list for such an identifier. A run of
  \<^verbatim>\<open>main\<close> (in \<^verbatim>\<open>src/main.go\<close>, lines 93 to 173, and in \<^verbatim>\<open>part_000\<close>) that is configured with
  such an identifier submits nothing and never returns \<^verbatim>\<open>nil\<close>: when \<^verbatim>\<open>sshUsername\<close> is
  configured and the key file was read, it returns the error of \<^verbatim>\<open>installCmd\<close>, wrapped,
  before it looks up the extra packages; when \<^verbatim>\<open>sshUsername\<close> is missing, \<^verbatim>\<open>cfg.Require\<close>
  panics, and when the key file cannot be read, \<^verbatim>\<open>main\<close> returns the error of
  \<^verbatim>\<open>os.ReadFile\<close>, wrapped, since both come before the call of \<^verbatim>\<open>installCmd\<close>.
\<close>

theorem unsupported_distribution:
  assumes "d \<notin> {''fedora'', ''ubuntu'', ''debian''}"
  shows "installCmd d = Inl (Errorf (''unsupported distribution: '' @ d))
     \<and> updateCmd d = Inl (Errorf (''unsupported distribution: '' @ d))
     \<and> extraPackagesForDistro d = []
     \<and> installCmd_part0 d = Inl (Errorf (''unsupported distribution: '' @ d))
     \<and> updateCmd_part0 d = Inl (Errorf (''unsupported distribution: '' @ d))
     \<and> extraPackagesForDistro_part0 d = []
     \<and> (cfg ''distribution'' = Some d \<longrightarrow>
          main sdk cfg key now =
            (case cfg ''sshUsername'' of
               None \<Rightarrow> (Panic ''sshUsername'', [])
             | Some u \<Rightarrow>
                 (case key of
                    Inl e \<Rightarrow>
                      (Return (Some (ErrorfW (''failed to read private key: '' @ Error e) e)), [])
                  | Inr k \<Rightarrow>
                      (Return (Some (ErrorfW
                         (''failed to get install command: unsupported distribution: '' @ d)
                         (Errorf (''unsupported distribution: '' @ d)))), [])))
        \<and> main_part0 sdk cfg key = main sdk cfg key now
        \<and> snd (main sdk cfg key now) = []
        \<and> fst (main sdk cfg key now) \<noteq> Return None)"
proof -
  have b: "installCmd d = Inl (Errorf (''unsupported distribution: '' @ d))"
    "updateCmd d = Inl (Errorf (''unsupported distribution: '' @ d))"
    "extraPackagesForDistro d = []"
    "installCmd_part0 d = Inl (Errorf (''unsupported distribution: '' @ d))"
    "updateCmd_part0 d = Inl (Errorf (''unsupported distribution: '' @ d))"
    "extraPackagesForDistro_part0 d = []"
    using assms
    by (simp_all add: installCmd_def updateCmd_def extraPackagesForDistro_def
        installCmd_part0_def updateCmd_part0_def extraPackagesForDistro_part0_def)
  have m: "cfg ''distribution'' = Some d \<longrightarrow>
          main sdk cfg key now =
            (case cfg ''sshUsername'' of
               None \<Rightarrow> (Panic ''sshUsername'', [])
             | Some u \<Rightarrow>
                 (case key of
                    Inl e \<Rightarrow>
                      (Return (Some (ErrorfW (''failed to read private key: '' @ Error e) e)), [])
                  | Inr k \<Rightarrow>
                      (Return (Some (ErrorfW
                         (''failed to get install command: unsupported distribution: '' @ d)
                         (Errorf (''unsupported distribution: '' @ d)))), [])))"
    using b(1) by (simp add: main_def split: option.splits sum.splits)
  have p: "cfg ''distribution'' = Some d \<longrightarrow> main_part0 sdk cfg key = main sdk cfg key now"
    using b(1,4) by (simp add: main_def main_part0_def split: option.splits sum.splits)
  have s: "cfg ''distribution'' = Some d \<longrightarrow> snd (main sdk cfg key now) = []"
    using b(1) by (simp add: main_def split: option.splits sum.splits)
  have n: "cfg ''distribution'' = Some d \<longrightarrow> fst (main sdk cfg key now) \<noteq> Return None"
    using b(1) by (simp add: main_def split: option.splits sum.splits)
  from b m p s n show ?thesis by blast
qed

text \<open>
  The distribution \<^verbatim>\<open>arch\<close>: with a user name and a key, with an unreadable key file, and
  without a user name.
\<close>

theorem unsupported_distribution_witness:
  "''arch'' \<notin> {''fedora'', ''ubuntu'', ''debian''}
   \<and> installCmd ''arch'' = Inl (Errorf ''unsupported distribution: arch'')
   \<and> extraPackagesForDistro ''arch'' = []
   \<and> main (\<lambda>ctx c. Inr (length (submissions ctx)) :: error + nat)
        [''distribution'' \<mapsto> ''arch'', ''sshUsername'' \<mapsto> ''ismail'']
        (Inr ''KEY'') ''2025-01-01T00:00:00Z''
      = (Return (Some (ErrorfW
           ''failed to get install command: unsupported distribution: arch''
           (Errorf ''unsupported distribution: arch''))), [])
   \<and> main_part0 (\<lambda>ctx c. Inr (length (submissions ctx)) :: error + nat)
        [''distribution'' \<mapsto> ''arch'', ''sshUsername'' \<mapsto> ''ismail'']
        (Inl (External ''no such file''))
      = (Return (Some (ErrorfW ''failed to read private key: no such file''
           (External ''no such file''))), [])
   \<and> main (\<lambda>ctx c. Inr (length (submissions ctx)) :: error + nat)
        [''distribution'' \<mapsto> ''arch''] (Inr ''KEY'') ''2025-01-01T00:00:00Z''
      = (Panic ''sshUsername'', [])"
proof -
  have h: "''arch'' \<notin> {''fedora'', ''ubuntu'', ''debian''}" by simp
  note t = unsupported_distribution [OF h]
  from t [of "[''distribution'' \<mapsto> ''arch'', ''sshUsername'' \<mapsto> ''ismail'']"
         "\<lambda>ctx c. Inr (length (submissions ctx)) :: error + nat" "Inr ''KEY''"
         "''2025-01-01T00:00:00Z''"]
  have 1: "installCmd ''arch'' = Inl (Errorf ''unsupported distribution: arch'')"
    "extraPackagesForDistro ''arch'' = []"
    "main (\<lambda>ctx c. Inr (length (submissions ctx)) :: error + nat)
        [''distribution'' \<mapsto> ''arch'', ''sshUsername'' \<mapsto> ''ismail'']
        (Inr ''KEY'') ''2025-01-01T00:00:00Z''
      = (Return (Some (ErrorfW
           ''failed to get install command: unsupported distribution: arch''
           (Errorf ''unsupported distribution: arch''))), [])"
    by simp_all
  from t [of "[''distribution'' \<mapsto> ''arch'', ''sshUsername'' \<mapsto> ''ismail'']"
         "\<lambda>ctx c. Inr (length (submissions ctx)) :: error + nat"
         "Inl (External ''no such file'')" "''2025-01-01T00:00:00Z''"]
  have 2: "main_part0 (\<lambda>ctx c. Inr (length (submissions ctx)) :: error + nat)
        [''distribution'' \<mapsto> ''arch'', ''sshUsername'' \<mapsto> ''ismail'']
        (Inl (External ''no such file''))
      = (Return (Some (ErrorfW ''failed to read private key: no such file''
           (External ''no such file''))), [])"
    by simp
  from t [of "[''distribution'' \<mapsto> ''arch'']"
         "\<lambda>ctx c. Inr (length (submissions ctx)) :: error + nat" "Inr ''KEY''"
         "''2025-01-01T00:00:00Z''"]
  have 3: "main (\<lambda>ctx c. Inr (length (submissions ctx)) :: error + nat)
        [''distribution'' \<mapsto> ''arch''] (Inr ''KEY'') ''2025-01-01T00:00:00Z''
      = (Panic ''sshUsername'', [])"
    by simp
  from h 1 2 3 show ?thesis by blast
qed

text \<open>
  The claim as it was stated fails at \<^verbatim>\<open>arch\<close>: the lookup of the extra packages returns
  the empty list there, in both versions that have it.
\<close>

theorem extraPackagesForDistro_unsupported_counterexample:
  "''arch'' \<notin> {''fedora'', ''ubuntu'', ''debian''}
   \<and> extraPackagesForDistro ''arch'' = []
   \<and> extraPackagesForDistro_part0 ''arch'' = []"
  by (simp add: extraPackagesForDistro_def extraPackagesForDistro_part0_def)

section \<open>Errors that two versions do not return\<close>

text \<open>
  Claim C2. In \<^verbatim>\<open>src/unnamed/part_000\<close> the chain is the loop of lines 100 to 121. On
  Fedora, when the SDK accepts \<^verbatim>\<open>update-system\<close> and refuses \<^verbatim>\<open>install-packages\<close>, the loop
  stops (\<^verbatim>\<open>use-zsh\<close> and the independent commands are not submitted), prints the error with
  \<^verbatim>\<open>fmt.Printf\<close> and makes \<^verbatim>\<open>main\<close> return \<^verbatim>\<open>nil\<close>: no error reaches the caller.
\<close>

theorem main_part0_chain_failure_returns_nil:
  "(case main_part0
      (\<lambda>ctx c. if resourceName c = ''install-packages'' then Inl (External ''refused'')
                else Inr (length ctx) :: error + nat)
      [''distribution'' \<mapsto> ''fedora'', ''sshUsername'' \<mapsto> ''ismail''] (Inr ''KEY'') of
      (out, tr) \<Rightarrow> (out, map (\<lambda>(c, r). (resourceName c, r)) (submissions tr), last tr))
     = (Return None,
        [(''update-system'', Inr 1), (''install-packages'', Inl (External ''refused''))],
        Printf (''failed to run command '' @ [CHR 0x27]
          @ ''sudo dnf install -y curl less git man-db zsh fedora-packager fedora-review''
          @ [CHR 0x27] @ '': refused''))"
  by code_simp

text \<open>
  Claim C6. In the second document of \<^verbatim>\<open>src/main.go\<close>, \<^verbatim>\<open>main\<close> drops the errors of
  \<^verbatim>\<open>installCmd\<close> and \<^verbatim>\<open>updateCmd\<close> (lines 212 and 213): for the distribution \<^verbatim>\<open>arch\<close> both
  fail, and with an SDK that accepts everything \<^verbatim>\<open>main\<close> submits its ten commands, the
  first two with the texts \<open>''''\<close> and \<open>''sudo  git zsh''\<close>, and returns \<^verbatim>\<open>nil\<close>. Its chain
  loop (lines 258 to 261) also returns \<^verbatim>\<open>nil\<close> when the SDK refuses a command.
\<close>

theorem main_doc2_errors_return_nil:
  "installCmd_doc2 ''arch'' = Inl (Errorf ''unsupported distribution: arch'')
   \<and> updateCmd_doc2 ''arch'' = Inl (Errorf ''unsupported distribution: arch'')
   \<and> (case main_doc2 (\<lambda>ctx c. Inr (length ctx) :: error + nat)
          [''distribution'' \<mapsto> ''arch'', ''sshUsername'' \<mapsto> ''ismail''] (Inr ''KEY'') of
        (out, tr) \<Rightarrow>
          (out, length (submissions tr),
           map (\<lambda>(c, r). (resourceName c, Create (args c), r)) (take 2 (submissions tr))))
     = (Return None, 10,
        [(''update-system'', [], Inr 1), (''install-packages'', ''sudo  git zsh'', Inr 3)])
   \<and> (case main_doc2 (\<lambda>ctx c. Inl (External ''refused'') :: error + nat)
          [''distribution'' \<mapsto> ''fedora'', ''sshUsername'' \<mapsto> ''ismail''] (Inr ''KEY'') of
        (out, tr) \<Rightarrow> (out, map (\<lambda>(c, r). (resourceName c, r)) (submissions tr), last tr))
     = (Return None,
        [(''update-system'', Inl (External ''refused''))],
        Printf (''failed to run command '' @ [CHR 0x27] @ ''sudo dnf update -y''
          @ [CHR 0x27] @ '': refused''))"
  by code_simp

end
